theory Spec2Isabelle
  imports Main "HOL-Library.AList"
begin

section \<open>Shared vocabulary\<close>

text \<open>
  A Go \<open>error\<close> value is modelled by its message; \<open>nil\<close> is \<open>None\<close> of
  \<open>error option\<close>. A call that can panic returns \<open>'a go\<close>: \<open>Panic\<close> carries
  the text of the run-time panic, \<open>Ret\<close> the ordinary result.
\<close>

type_synonym error = string

datatype 'a go = Panic string | Ret 'a

section \<open>The ECS deployment adapter (cd/manager/aws/ecs.go)\<close>

subsection \<open>CheckTask\<close>

text \<open>
  The part of an ECS task record that \<open>CheckTask\<close> reads: \<open>LastStatus\<close> is a
  \<open>*string\<close>, so it may be nil.
\<close>

record Task =
  LastStatus :: "string option"

record DescribeTasksInput =
  dti_Cluster :: string
  dti_Tasks :: "string list"

record DescribeTasksOutput =
  dto_Tasks :: "Task list"

text \<open>
  The ECS client is an external collaborator: \<open>DescribeTasks\<close> is any function from
  the request to an error or an output.
\<close>

record ecsClient =
  DescribeTasks :: "DescribeTasksInput \<Rightarrow> error + DescribeTasksOutput"

text \<open>The two values of the SDK's \<open>types.DesiredStatus\<close> that the adapter uses.\<close>

definition DesiredStatusRunning :: string where
  "DesiredStatusRunning = ''RUNNING''"

definition DesiredStatusStopped :: string where
  "DesiredStatusStopped = ''STOPPED''"

text \<open>
  The loop over \<open>descOutput.Tasks\<close>: the first task whose status differs returns
  \<open>(false, nil)\<close>; dereferencing a nil \<open>LastStatus\<close> panics; running off the end
  returns \<open>(true, nil)\<close>.
\<close>

fun checkTasksLoop :: "string \<Rightarrow> Task list \<Rightarrow> (bool \<times> error option) go" where
  "checkTasksLoop checkStatus [] = Ret (True, None)"
| "checkTasksLoop checkStatus (task # tasks) =
     (case LastStatus task of
        None \<Rightarrow> Panic ''invalid memory address or nil pointer dereference''
      | Some s \<Rightarrow>
          if s \<noteq> checkStatus then Ret (False, None)
          else checkTasksLoop checkStatus tasks)"

definition CheckTask ::
  "ecsClient \<Rightarrow> bool \<Rightarrow> string \<Rightarrow> string list \<Rightarrow> (bool \<times> error option) go" where
  "CheckTask c running cluster taskArn =
     (case DescribeTasks c \<lparr>dti_Cluster = cluster, dti_Tasks = taskArn\<rparr> of
        Inl err \<Rightarrow> Ret (False, Some err)
      | Inr descOutput \<Rightarrow>
          (let checkStatus =
                 (if running then DesiredStatusRunning else DesiredStatusStopped)
           in if length (dto_Tasks descOutput) > 0
              then checkTasksLoop checkStatus (dto_Tasks descOutput)
              else Ret (False, None)))"

subsection \<open>PopulateLayout\<close>

text \<open>
  The returned \<open>map[string]interface{}\<close> maps a cluster name to a service map, itself a
  \<open>map[string]interface{}\<close> whose values are all nil. A service map that was declared
  with \<open>var\<close> and never assigned is the nil map: \<open>None\<close> here, while \<open>Some m\<close>
  is a map made by a literal. The descriptor stored under a service is always nil:
  \<open>unit\<close>.
\<close>

type_synonym ServiceLayout = "(string \<rightharpoonup> unit) option"
type_synonym ClusterLayout = "string \<rightharpoonup> ServiceLayout"

record Ecs =
  ecs_env :: string

definition DeployComponent_Ceramic :: string where
  "DeployComponent_Ceramic = ''ceramic''"

definition DeployComponent_Ipfs :: string where
  "DeployComponent_Ipfs = ''ipfs''"

definition DeployComponent_Cas :: string where
  "DeployComponent_Cas = ''cas''"

definition EnvType_Prod :: string where
  "EnvType_Prod = ''prod''"

text \<open>
  \<open>prodExtra\<close> is the \<open>if e.env == manager.EnvType_Prod\<close> block: two more services
  written into the public service map.
\<close>

definition prodExtra ::
  "Ecs \<Rightarrow> string \<Rightarrow> string \<Rightarrow> (string \<rightharpoonup> unit) \<Rightarrow> (string \<rightharpoonup> unit)" where
  "prodExtra e s1 s2 publicLayout =
     (if ecs_env e = EnvType_Prod
      then publicLayout(s1 \<mapsto> (), s2 \<mapsto> ())
      else publicLayout)"

text \<open>
  \<open>PopulateLayout e env component\<close>: \<open>env\<close> is what \<open>os.Getenv("ENV")\<close> returns at
  the call, \<open>ecs_env e\<close> the value captured when the adapter was built.
\<close>

definition PopulateLayout :: "Ecs \<Rightarrow> string \<Rightarrow> string \<Rightarrow> error + ClusterLayout" where
  "PopulateLayout e env component =
     (let globalPrefix = ''ceramic'';
          privateCluster = globalPrefix @ ''-'' @ env;
          publicCluster = globalPrefix @ ''-'' @ env @ ''-ex'';
          casCluster = globalPrefix @ ''-'' @ env @ ''-cas'';
          result = (\<lambda>privateLayout publicLayout casLayout.
             Inr [privateCluster \<mapsto> privateLayout,
                  publicCluster \<mapsto> publicLayout,
                  casCluster \<mapsto> casLayout])
      in if component = DeployComponent_Ceramic then
           result
             (Some [privateCluster @ ''-'' @ ''node'' \<mapsto> ()])
             (Some (prodExtra e
                (globalPrefix @ ''-'' @ ''elp-1-1-node'')
                (globalPrefix @ ''-'' @ ''elp-1-2-node'')
                [publicCluster @ ''-'' @ ''node'' \<mapsto> (),
                 publicCluster @ ''-'' @ ''gateway'' \<mapsto> ()]))
             (Some [casCluster @ ''-'' @ ''node'' \<mapsto> ()])
         else if component = DeployComponent_Ipfs then
           result
             (Some [privateCluster @ ''-'' @ ''ipfs-nd'' \<mapsto> ()])
             (Some (prodExtra e
                (globalPrefix @ ''-'' @ ''elp-1-1-ipfs-nd'')
                (globalPrefix @ ''-'' @ ''elp-1-2-ipfs-nd'')
                [publicCluster @ ''-'' @ ''ipfs-nd'' \<mapsto> (),
                 publicCluster @ ''-'' @ ''ipfs-gw'' \<mapsto> ()]))
             (Some [casCluster @ ''-'' @ ''ipfs-nd'' \<mapsto> ()])
         else if component = DeployComponent_Cas then
           result None None
             (Some [casCluster @ ''-'' @ ''api'' \<mapsto> (),
                    casCluster @ ''-'' @ ''anchor'' \<mapsto> ()])
         else Inl (''deployJob: unexpected component: '' @ component))"

text \<open>The entry stored under a cluster key of a returned layout, if there is one.\<close>

definition clusterEntry :: "error + ClusterLayout \<Rightarrow> string \<Rightarrow> ServiceLayout option" where
  "clusterEntry r cluster = (case r of Inl _ \<Rightarrow> None | Inr l \<Rightarrow> l cluster)"

definition clusterKeys :: "error + ClusterLayout \<Rightarrow> string set" where
  "clusterKeys r = (case r of Inl _ \<Rightarrow> {} | Inr l \<Rightarrow> dom l)"

section \<open>Jobs (the job package and the manager package)\<close>

text \<open>
  \<open>JobType\<close> and \<open>JobStage\<close> are Go string types with a fixed set of constants; each
  is a datatype of those constants, with one more constructor for the zero value
  \<open>""\<close> that a struct literal leaves behind when it omits the field.
\<close>

datatype JobType =
    JobType_Unset
  | JobType_Deploy
  | JobType_Anchor
  | JobType_TestE2E
  | JobType_TestSmoke
  | JobType_Workflow

datatype JobStage =
    JobStage_Unset
  | JobStage_Queued
  | JobStage_Dequeued
  | JobStage_Started
  | JobStage_Waiting
  | JobStage_Skipped
  | JobStage_Canceled
  | JobStage_Failed
  | JobStage_Completed

text \<open>
  A \<open>time.Time\<close> is the number of nanoseconds since the Unix epoch, a
  \<open>time.Duration\<close> a number of nanoseconds. \<open>zeroTime\<close> is Go's zero
  \<open>time.Time\<close> (1 January of year 1, UTC), the one \<open>IsZero\<close> recognises.
\<close>

type_synonym Time = int
type_synonym Duration = int

definition Second :: Duration where
  "Second = 1000000000"

definition Minute :: Duration where
  "Minute = 60 * Second"

definition Hour :: Duration where
  "Hour = 60 * Minute"

definition zeroTime :: Time where
  "zeroTime = - 62135596800 * Second"

definition IsZero :: "Time \<Rightarrow> bool" where
  "IsZero t = (t = zeroTime)"

definition Add :: "Time \<Rightarrow> Duration \<Rightarrow> Time" where
  "Add t d = t + d"

definition After :: "Time \<Rightarrow> Time \<Rightarrow> bool" where
  "After t u = (t > u)"

definition UnixMilli :: "Time \<Rightarrow> int" where
  "UnixMilli t = t div 1000000"

text \<open>
  The values a \<open>map[string]interface{}\<close> of job parameters holds. A layout is the
  nested cluster map of the deployment adapter.
\<close>

datatype Value =
    VBool bool
  | VString string
  | VInt int
  | VLayout ClusterLayout
  | VMap "(string \<times> Value) list"

type_synonym Params = "string \<rightharpoonup> Value"

text \<open>
  \<open>Params\<close> is a Go map, so the field holds either the nil map (\<open>None\<close>) or a map
  (\<open>Some m\<close>). Reading the nil map finds no entry; writing into it panics.
\<close>

record JobState =
  Stage :: JobStage
  Ts :: Time
  JobId :: string
  Type :: JobType
  ParamsMap :: "Params option"

text \<open>\<open>Params js k\<close> is the read \<open>js.Params[k]\<close>.\<close>

definition Params :: "JobState \<Rightarrow> Params" where
  "Params js = (case ParamsMap js of None \<Rightarrow> Map.empty | Some m \<Rightarrow> m)"

text \<open>\<open>setParam js k v\<close> is the write \<open>js.Params[k] = v\<close>.\<close>

definition setParam :: "JobState \<Rightarrow> string \<Rightarrow> Value \<Rightarrow> JobState go" where
  "setParam js k v =
     (case ParamsMap js of
        None \<Rightarrow> Panic ''assignment to entry in nil map''
      | Some m \<Rightarrow> Ret (js\<lparr>ParamsMap := Some (m(k \<mapsto> v))\<rparr>))"

text \<open>
  Type assertions on a parameter. \<open>v, ok := p.(bool)\<close> never panics and yields the
  zero value when the entry is missing or of another type; the one-result form
  \<open>p.(string)\<close> panics then.
\<close>

definition assertBool :: "Value option \<Rightarrow> bool \<times> bool" where
  "assertBool p = (case p of Some (VBool b) \<Rightarrow> (b, True) | _ \<Rightarrow> (False, False))"

definition assertString :: "Value option \<Rightarrow> string \<times> bool" where
  "assertString p = (case p of Some (VString s) \<Rightarrow> (s, True) | _ \<Rightarrow> ([], False))"

definition assertLayout :: "Value option \<Rightarrow> ClusterLayout \<times> bool" where
  "assertLayout p = (case p of Some (VLayout l) \<Rightarrow> (l, True) | _ \<Rightarrow> (Map.empty, False))"

definition mustString :: "Value option \<Rightarrow> string go" where
  "mustString p =
     (case p of
        Some (VString s) \<Rightarrow> Ret s
      | _ \<Rightarrow> Panic ''interface conversion: interface {} is not string'')"

text \<open>
  Modelled from the spec: the files that declare the parameter names, the rollback
  target, the service name and the waiting times (\<open>job.DeployJobParam_*\<close>,
  \<open>job.JobParam_*\<close>, \<open>job.WorkflowJobParam_*\<close>, \<open>job.DeployJobTarget_Rollback\<close>,
  \<open>manager.ServiceName\<close>, \<open>manager.Error_Timeout\<close>, \<open>manager.DefaultWaitTime\<close>) are
  not among the sources. The names are the ones the spec writes (\<open>component\<close>,
  \<open>sha\<close>, \<open>shaTag\<close>, \<open>rollback\<close>, \<open>force\<close>, \<open>manual\<close>, \<open>layout\<close>,
  \<open>error\<close>, \<open>start\<close>, \<open>error="timeout"\<close>, a wait of five minutes); the others
  are distinct strings.
\<close>

definition JobParam_Component :: string where
  "JobParam_Component = ''component''"

definition JobParam_Sha :: string where
  "JobParam_Sha = ''sha''"

definition JobParam_ShaTag :: string where
  "JobParam_ShaTag = ''shaTag''"

definition JobParam_Rollback :: string where
  "JobParam_Rollback = ''rollback''"

definition JobParam_Force :: string where
  "JobParam_Force = ''force''"

definition JobParam_Manual :: string where
  "JobParam_Manual = ''manual''"

definition JobParam_Layout :: string where
  "JobParam_Layout = ''layout''"

definition JobParam_Error :: string where
  "JobParam_Error = ''error''"

definition JobParam_Start :: string where
  "JobParam_Start = ''start''"

definition JobParam_Source :: string where
  "JobParam_Source = ''source''"

definition WorkflowJobParam_Name :: string where
  "WorkflowJobParam_Name = ''name''"

definition WorkflowJobParam_Org :: string where
  "WorkflowJobParam_Org = ''org''"

definition WorkflowJobParam_Repo :: string where
  "WorkflowJobParam_Repo = ''repo''"

definition WorkflowJobParam_Ref :: string where
  "WorkflowJobParam_Ref = ''ref''"

definition WorkflowJobParam_Workflow :: string where
  "WorkflowJobParam_Workflow = ''workflow''"

definition WorkflowJobParam_Inputs :: string where
  "WorkflowJobParam_Inputs = ''inputs''"

definition WorkflowJobParam_Environment :: string where
  "WorkflowJobParam_Environment = ''environment''"

definition WorkflowJobParam_TestSelector :: string where
  "WorkflowJobParam_TestSelector = ''test_selector''"

definition DeployJobTarget_Rollback :: string where
  "DeployJobTarget_Rollback = ''rollback''"

definition ServiceName :: string where
  "ServiceName = ''cd-manager''"

definition Error_Timeout :: string where
  "Error_Timeout = ''timeout''"

definition DefaultWaitTime :: Duration where
  "DefaultWaitTime = 5 * Minute"

definition DefaultFailureTime :: Duration where
  "DefaultFailureTime = 30 * Minute"

section \<open>The job manager (jobmanager package)\<close>

subsection \<open>Effects and collaborators\<close>

text \<open>
  The manager works through its collaborators: the cache, the database, the state
  machines of the jobs package, the clock. The model threads a history, the list of
  the effects performed so far, oldest first; every collaborator is a function of the
  history before the call, so that it may answer differently each time it is asked.

  \<^item> \<open>EvUpdateJobStage js stage e\<close>: \<open>updateJobStage(js, stage, e)\<close>, that is
    \<open>manager.AdvanceJob(js, stage, time.Now(), e, db, notifs)\<close>;
  \<^item> \<open>EvAdvanceJob js\<close>: \<open>advanceJob(js)\<close> started an advancement task for \<open>js\<close>;
  \<^item> \<open>EvQueueJob js\<close>: \<open>db.QueueJob(js)\<close>;
  \<^item> \<open>EvDeleteJob id\<close>: \<open>cache.DeleteJob(id)\<close>;
  \<^item> \<open>EvPrint s\<close>, \<open>EvPrintStack\<close>, \<open>EvLog s\<close>: \<open>fmt.Println\<close>,
    \<open>debug.PrintStack()\<close> and \<open>log.Printf\<close> (the fixed head of the format only).
\<close>

datatype event =
    EvUpdateJobStage JobState JobStage "error option"
  | EvAdvanceJob JobState
  | EvQueueJob JobState
  | EvDeleteJob string
  | EvPrint string
  | EvPrintStack
  | EvLog string

type_synonym history = "event list"

text \<open>
  \<open>IsActiveJob\<close>, \<open>IsFinishedJob\<close> and \<open>IsV5WorkerJob\<close> are helpers of packages
  that are not among the sources: they are parameters, as are the state machines
  (\<open>smNew\<close> is the constructor that \<open>prepareJobSm\<close> picks for the job's type,
  \<open>smAdvance\<close> its \<open>Advance\<close> method) and \<open>time.AddDate\<close>.
\<close>

record World =
  cacheJobs :: "history \<Rightarrow> JobState list"
  advanceJobErr :: "history \<Rightarrow> JobState \<Rightarrow> JobStage \<Rightarrow> error option \<Rightarrow> error option"
  queueJobErr :: "history \<Rightarrow> JobState \<Rightarrow> error option"
  queuedJobs :: "history \<Rightarrow> JobState list"
  orderedJobs :: "history \<Rightarrow> JobStage \<Rightarrow> JobState list"
  getDeployTags :: "history \<Rightarrow> error + (string \<rightharpoonup> string)"
  IsActiveJob :: "JobState \<Rightarrow> bool"
  IsFinishedJob :: "JobState \<Rightarrow> bool"
  IsV5WorkerJob :: "JobState \<Rightarrow> bool"
  uuidNew :: "history \<Rightarrow> string"
  timeNow :: "history \<Rightarrow> Time"
  addDays :: "Time \<Rightarrow> int \<Rightarrow> Time"
  debugStack :: "history \<Rightarrow> string"
  smNew :: "history \<Rightarrow> JobState \<Rightarrow> (error option) go"
  smAdvance :: "history \<Rightarrow> JobState \<Rightarrow> (JobState \<times> error option) go"

record JobManager =
  maxAnchorJobs :: int
  minAnchorJobs :: int
  paused :: bool
  mgr_env :: string

definition tests_Name :: string where
  "tests_Name = ''Post-Deployment Tests''"

definition tests_Org :: string where
  "tests_Org = ''3box''"

definition tests_Repo :: string where
  "tests_Repo = ''ceramic-tests''"

definition tests_Ref :: string where
  "tests_Ref = ''main''"

definition tests_Workflow :: string where
  "tests_Workflow = ''run-durable.yml''"

definition tests_Selector :: string where
  "tests_Selector = ''fast''"

definition DefaultTtlDays :: int where
  "DefaultTtlDays = 1"

text \<open>Go's \<open>int\<close> is 64 bits wide: \<open>wrap64\<close> is the value an \<open>int\<close> expression has.\<close>

definition wrap64 :: "int \<Rightarrow> int" where
  "wrap64 x = (x + 2 ^ 63) mod 2 ^ 64 - 2 ^ 63"

definition JobsByMatcher :: "World \<Rightarrow> history \<Rightarrow> (JobState \<Rightarrow> bool) \<Rightarrow> JobState list" where
  "JobsByMatcher w h matcher = filter matcher (cacheJobs w h)"

subsection \<open>NewJob, updateJobStage, advanceJob, advanceJobs\<close>

definition NewJob :: "World \<Rightarrow> JobState \<Rightarrow> history \<Rightarrow> (JobState \<times> error option) \<times> history" where
  "NewJob w jobState h =
     (let js1 = jobState\<lparr>Stage := JobStage_Queued\<rparr>;
          js2 = (if length (JobId js1) = 0 then js1\<lparr>JobId := uuidNew w h\<rparr> else js1);
          js3 = (if IsZero (Ts js2) then js2\<lparr>Ts := timeNow w h\<rparr> else js2);
          js4 = (if ParamsMap js3 = None then js3\<lparr>ParamsMap := Some Map.empty\<rparr> else js3)
      in ((js4, queueJobErr w h js4), h @ [EvQueueJob js4]))"

definition updateJobStage ::
  "World \<Rightarrow> JobState \<Rightarrow> JobStage \<Rightarrow> error option \<Rightarrow> history \<Rightarrow> error option \<times> history" where
  "updateJobStage w jobState jobStage e h =
     (advanceJobErr w h jobState jobStage e, h @ [EvUpdateJobStage jobState jobStage e])"

text \<open>
  \<open>advanceJob\<close> adds one to the wait group and starts a goroutine; what the goroutine
  does is \<open>advanceJobTask\<close> below. \<open>advanceJobs\<close> starts one task per job and waits.
\<close>

definition advanceJob :: "JobState \<Rightarrow> history \<Rightarrow> history" where
  "advanceJob jobState h = h @ [EvAdvanceJob jobState]"

definition advanceJobs :: "JobState list \<Rightarrow> history \<Rightarrow> history" where
  "advanceJobs jobs h = (if length jobs > 0 then foldl (\<lambda>h' js. advanceJob js h') h jobs else h)"

definition getActiveDeploys :: "World \<Rightarrow> history \<Rightarrow> JobState list" where
  "getActiveDeploys w h =
     JobsByMatcher w h (\<lambda>js. IsActiveJob w js \<and> Type js = JobType_Deploy)"

subsection \<open>processForceDeployJobs\<close>

text \<open>
  \<open>forceDeploys\<close> is a Go map from component to job: an association list with one
  entry per key, written with \<open>AList.update\<close> and read with \<open>map_of\<close>.
  \<open>maps.Values\<close> returns the values in no particular order; the model takes the
  order of the list.
\<close>

fun collectForceDeploys ::
  "JobState list \<Rightarrow> (string \<times> JobState) list \<Rightarrow> (string \<times> JobState) list go" where
  "collectForceDeploys [] forceDeploys = Ret forceDeploys"
| "collectForceDeploys (dequeuedJob # rest) forceDeploys =
     (if Type dequeuedJob = JobType_Deploy
         \<and> fst (assertBool (Params dequeuedJob JobParam_Force))
      then (case mustString (Params dequeuedJob JobParam_Component) of
              Panic p \<Rightarrow> Panic p
            | Ret component \<Rightarrow>
                collectForceDeploys rest (AList.update component dequeuedJob forceDeploys))
      else collectForceDeploys rest forceDeploys)"

text \<open>
  The two loops that can leave the function early: the Boolean of the result says
  whether an update failed and the function returned at once.
\<close>

fun skipForcedDeploys ::
  "World \<Rightarrow> (string \<times> JobState) list \<Rightarrow> JobState list \<Rightarrow> history \<Rightarrow> (bool \<times> history) go" where
  "skipForcedDeploys w forceDeploys [] h = Ret (False, h)"
| "skipForcedDeploys w forceDeploys (dequeuedJob # rest) h =
     (if Type dequeuedJob = JobType_Deploy
      then (case mustString (Params dequeuedJob JobParam_Component) of
              Panic p \<Rightarrow> Panic p
            | Ret component \<Rightarrow>
                (case map_of forceDeploys component of
                   None \<Rightarrow> skipForcedDeploys w forceDeploys rest h
                 | Some forceDeploy \<Rightarrow>
                     if JobId dequeuedJob \<noteq> JobId forceDeploy
                     then (case updateJobStage w dequeuedJob JobStage_Skipped None h of
                             (Some err, h') \<Rightarrow> Ret (True, h')
                           | (None, h') \<Rightarrow> skipForcedDeploys w forceDeploys rest h')
                     else skipForcedDeploys w forceDeploys rest h))
      else skipForcedDeploys w forceDeploys rest h)"

fun cancelActiveDeploys ::
  "World \<Rightarrow> (string \<times> JobState) list \<Rightarrow> JobState list \<Rightarrow> history \<Rightarrow> (bool \<times> history) go" where
  "cancelActiveDeploys w forceDeploys [] h = Ret (False, h)"
| "cancelActiveDeploys w forceDeploys (activeDeploy # rest) h =
     (case mustString (Params activeDeploy JobParam_Component) of
        Panic p \<Rightarrow> Panic p
      | Ret component \<Rightarrow>
          (case map_of forceDeploys component of
             None \<Rightarrow> cancelActiveDeploys w forceDeploys rest h
           | Some forceDeploy \<Rightarrow>
               (case updateJobStage w activeDeploy JobStage_Canceled None h of
                  (Some err, h') \<Rightarrow> Ret (True, h')
                | (None, h') \<Rightarrow> cancelActiveDeploys w forceDeploys rest h')))"

definition processForceDeployJobs ::
  "World \<Rightarrow> JobState list \<Rightarrow> history \<Rightarrow> (bool \<times> history) go" where
  "processForceDeployJobs w dequeuedJobs h =
     (case collectForceDeploys dequeuedJobs [] of
        Panic p \<Rightarrow> Panic p
      | Ret forceDeploys \<Rightarrow>
          if length forceDeploys > 0
          then (case skipForcedDeploys w forceDeploys dequeuedJobs h of
                  Panic p \<Rightarrow> Panic p
                | Ret (True, h1) \<Rightarrow> Ret (True, h1)
                | Ret (False, h1) \<Rightarrow>
                    (case cancelActiveDeploys w forceDeploys (getActiveDeploys w h1) h1 of
                       Panic p \<Rightarrow> Panic p
                     | Ret (True, h2) \<Rightarrow> Ret (True, h2)
                     | Ret (False, h2) \<Rightarrow>
                         Ret (True, advanceJobs (map snd forceDeploys) h2)))
          else Ret (False, h))"

subsection \<open>processDeployJobs, processTestJobs, processWorkflowJobs\<close>

text \<open>
  The loop of \<open>processDeployJobs\<close> from index 1 on; the result is the early-return
  flag, the surviving \<open>deployJob\<close> and the history.
\<close>

fun collapseDeploys ::
  "World \<Rightarrow> string \<Rightarrow> JobState \<Rightarrow> JobState list \<Rightarrow> history
     \<Rightarrow> (bool \<times> JobState \<times> history) go" where
  "collapseDeploys w deployComponent deployJob [] h = Ret (False, deployJob, h)"
| "collapseDeploys w deployComponent deployJob (dequeuedJob # rest) h =
     (if Type dequeuedJob = JobType_TestE2E \<or> Type dequeuedJob = JobType_TestSmoke
      then Ret (False, deployJob, h)
      else if Type dequeuedJob = JobType_Deploy
      then (case mustString (Params dequeuedJob JobParam_Component) of
              Panic p \<Rightarrow> Panic p
            | Ret component \<Rightarrow>
                if component = deployComponent
                then (case updateJobStage w deployJob JobStage_Skipped None h of
                        (Some err, h') \<Rightarrow> Ret (True, deployJob, h')
                      | (None, h') \<Rightarrow> collapseDeploys w deployComponent dequeuedJob rest h')
                else collapseDeploys w deployComponent deployJob rest h)
      else collapseDeploys w deployComponent deployJob rest h)"

definition processDeployJobs ::
  "World \<Rightarrow> JobState list \<Rightarrow> history \<Rightarrow> (bool \<times> history) go" where
  "processDeployJobs w dequeuedJobs h =
     (if length (JobsByMatcher w h (IsActiveJob w)) = 0
      then (case dequeuedJobs of
              [] \<Rightarrow> Panic ''index out of range [0] with length 0''
            | deployJob # rest \<Rightarrow>
                (case mustString (Params deployJob JobParam_Component) of
                   Panic p \<Rightarrow> Panic p
                 | Ret deployComponent \<Rightarrow>
                     (case collapseDeploys w deployComponent deployJob rest h of
                        Panic p \<Rightarrow> Panic p
                      | Ret (True, _, h') \<Rightarrow> Ret (True, h')
                      | Ret (False, deployJob', h') \<Rightarrow> Ret (True, advanceJob deployJob' h'))))
      else Ret (False, h @ [EvLog ''processDeployJobs: other jobs in progress'']))"

fun collapseTests ::
  "World \<Rightarrow> JobState list \<Rightarrow> (JobType \<times> JobState) list \<Rightarrow> history
     \<Rightarrow> bool \<times> (JobType \<times> JobState) list \<times> history" where
  "collapseTests w [] dequeuedTests h = (False, dequeuedTests, h)"
| "collapseTests w (dequeuedJob # rest) dequeuedTests h =
     (if Type dequeuedJob = JobType_Deploy
      then (False, dequeuedTests, h)
      else if Type dequeuedJob = JobType_TestE2E \<or> Type dequeuedJob = JobType_TestSmoke
      then (case map_of dequeuedTests (Type dequeuedJob) of
              Some jobToSkip \<Rightarrow>
                (case updateJobStage w jobToSkip JobStage_Skipped None h of
                   (Some err, h') \<Rightarrow> (True, dequeuedTests, h')
                 | (None, h') \<Rightarrow>
                     collapseTests w rest
                       (AList.update (Type dequeuedJob) dequeuedJob dequeuedTests) h')
            | None \<Rightarrow>
                collapseTests w rest
                  (AList.update (Type dequeuedJob) dequeuedJob dequeuedTests) h)
      else collapseTests w rest dequeuedTests h)"

definition processTestJobs :: "World \<Rightarrow> JobState list \<Rightarrow> history \<Rightarrow> bool \<times> history" where
  "processTestJobs w dequeuedJobs h =
     (if length (getActiveDeploys w h) = 0
      then (case collapseTests w dequeuedJobs [] h of
              (True, _, h') \<Rightarrow> (True, h')
            | (False, dequeuedTests, h') \<Rightarrow>
                (length dequeuedTests > 0, advanceJobs (map snd dequeuedTests) h'))
      else (False, h @ [EvLog ''processTestJobs: deployment in progress'']))"

fun collectWorkflows :: "JobState list \<Rightarrow> JobState list \<Rightarrow> JobState list" where
  "collectWorkflows [] dequeuedWorkflows = dequeuedWorkflows"
| "collectWorkflows (dequeuedJob # rest) dequeuedWorkflows =
     (if Type dequeuedJob = JobType_Deploy then dequeuedWorkflows
      else if Type dequeuedJob = JobType_Workflow
      then collectWorkflows rest (dequeuedWorkflows @ [dequeuedJob])
      else collectWorkflows rest dequeuedWorkflows)"

definition processWorkflowJobs :: "World \<Rightarrow> JobState list \<Rightarrow> history \<Rightarrow> bool \<times> history" where
  "processWorkflowJobs w dequeuedJobs h =
     (if length (getActiveDeploys w h) = 0
      then (let dequeuedWorkflows = collectWorkflows dequeuedJobs []
            in (length dequeuedWorkflows > 0, advanceJobs dequeuedWorkflows h))
      else (False, h @ [EvLog ''processWorkflowJobs: deployment in progress'']))"

subsection \<open>processVxAnchorJobs, processAnchorJobs\<close>

text \<open>
  The loop over the dequeued jobs: \<open>numActive\<close> is \<open>len(activeAnchors)\<close>,
  \<open>dequeuedAnchors\<close> the anchors admitted so far. The result is the early-return
  flag, the admitted anchors and the history.
\<close>

fun admitAnchors ::
  "World \<Rightarrow> JobManager \<Rightarrow> bool \<Rightarrow> nat \<Rightarrow> JobState list \<Rightarrow> JobState list \<Rightarrow> history
     \<Rightarrow> bool \<times> JobState list \<times> history" where
  "admitAnchors w m processV5Jobs numActive [] dequeuedAnchors h =
     (False, dequeuedAnchors, h)"
| "admitAnchors w m processV5Jobs numActive (dequeuedJob # rest) dequeuedAnchors h =
     (if Type dequeuedJob = JobType_Anchor \<and> processV5Jobs = IsV5WorkerJob w dequeuedJob
      then (if IsV5WorkerJob w dequeuedJob
               \<or> maxAnchorJobs m = - 1
               \<or> int numActive + int (length dequeuedAnchors) < maxAnchorJobs m
            then admitAnchors w m processV5Jobs numActive rest
                   (dequeuedAnchors @ [dequeuedJob]) h
            else (case updateJobStage w dequeuedJob JobStage_Skipped None h of
                    (Some err, h') \<Rightarrow> (True, dequeuedAnchors, h')
                  | (None, h') \<Rightarrow>
                      admitAnchors w m processV5Jobs numActive rest dequeuedAnchors h'))
      else admitAnchors w m processV5Jobs numActive rest dequeuedAnchors h)"

text \<open>The synthetic anchor job that the top-up loop hands to \<open>NewJob\<close>.\<close>

definition syntheticAnchor :: JobState where
  "syntheticAnchor =
     \<lparr>Stage = JobStage_Unset, Ts = zeroTime, JobId = [], Type = JobType_Anchor,
      ParamsMap = Some [JobParam_Source \<mapsto> VString ServiceName]\<rparr>"

text \<open>The top-up loop, run \<open>n\<close> times: a failure to queue is logged and the loop goes on.\<close>

fun queueAnchors :: "World \<Rightarrow> nat \<Rightarrow> history \<Rightarrow> history" where
  "queueAnchors w 0 h = h"
| "queueAnchors w (Suc n) h =
     (case NewJob w syntheticAnchor h of
        ((_, Some err), h') \<Rightarrow>
          queueAnchors w n
            (h' @ [EvLog ''processVxAnchorJobs: failed to queue additional anchor job''])
      | ((_, None), h') \<Rightarrow> queueAnchors w n h')"

definition processVxAnchorJobs ::
  "World \<Rightarrow> JobManager \<Rightarrow> JobState list \<Rightarrow> bool \<Rightarrow> history \<Rightarrow> bool \<times> history" where
  "processVxAnchorJobs w m dequeuedJobs processV5Jobs h =
     (let activeAnchors = JobsByMatcher w h
            (\<lambda>js. IsActiveJob w js \<and> Type js = JobType_Anchor
                   \<and> processV5Jobs = IsV5WorkerJob w js)
      in case admitAnchors w m processV5Jobs (length activeAnchors) dequeuedJobs [] h of
           (True, _, h') \<Rightarrow> (True, h')
         | (False, dequeuedAnchors, h') \<Rightarrow>
             (let h1 = advanceJobs dequeuedAnchors h';
                  numJobs = length dequeuedAnchors;
                  h2 = (if \<not> processV5Jobs
                        then queueAnchors w (nat (wrap64 (minAnchorJobs m - int numJobs))) h1
                        else h1)
              in (numJobs > 0, h2)))"

text \<open>
  \<open>processAnchorJobs\<close> returns \<open>processVxAnchorJobs(.., true) || processVxAnchorJobs(..,
  false)\<close>: Go evaluates the right operand only when the left one is false.
\<close>

definition processAnchorJobs ::
  "World \<Rightarrow> JobManager \<Rightarrow> JobState list \<Rightarrow> history \<Rightarrow> bool \<times> history" where
  "processAnchorJobs w m dequeuedJobs h =
     (if length (getActiveDeploys w h) = 0
      then (case processVxAnchorJobs w m dequeuedJobs True h of
              (True, h') \<Rightarrow> (True, h')
            | (False, h') \<Rightarrow> processVxAnchorJobs w m dequeuedJobs False h')
      else (False, h @ [EvLog ''processAnchorJobs: deployment in progress'']))"

subsection \<open>processJobs\<close>

text \<open>
  The policy over the dequeued list: the result is the flag \<open>processAnchorJobs\<close> and
  the history. The caller has checked that the list is not empty.
\<close>

definition dispatchDequeued ::
  "World \<Rightarrow> JobState list \<Rightarrow> history \<Rightarrow> (bool \<times> history) go" where
  "dispatchDequeued w dequeuedJobs h =
     (let h0 = h @ [EvLog ''processJobs: dequeued jobs'']
      in case processForceDeployJobs w dequeuedJobs h0 of
           Panic p \<Rightarrow> Panic p
         | Ret (True, h1) \<Rightarrow> Ret (False, h1)
         | Ret (False, h1) \<Rightarrow>
             (case dequeuedJobs of
                [] \<Rightarrow> Panic ''index out of range [0] with length 0''
              | first # _ \<Rightarrow>
                  if Type first = JobType_Deploy
                  then (case processDeployJobs w dequeuedJobs h1 of
                          Panic p \<Rightarrow> Panic p
                        | Ret (_, h2) \<Rightarrow>
                            (let e2eTestJobs = JobsByMatcher w h2
                                   (\<lambda>js. IsActiveJob w js \<and> Type js = JobType_TestE2E)
                             in Ret (length e2eTestJobs > 0, h2)))
                  else (let h2 = snd (processTestJobs w dequeuedJobs h1);
                            h3 = snd (processWorkflowJobs w dequeuedJobs h2)
                        in Ret (True, h3))))"

definition ageOut :: "JobState list \<Rightarrow> history \<Rightarrow> history" where
  "ageOut oldJobs h =
     (if length oldJobs > 0
      then foldl (\<lambda>h' oldJob. h' @ [EvLog ''processJobs: aging out job'', EvDeleteJob (JobId oldJob)])
             (h @ [EvLog ''processJobs: aging out jobs'']) oldJobs
      else h)"

definition processJobs :: "World \<Rightarrow> JobManager \<Rightarrow> history \<Rightarrow> history go" where
  "processJobs w m h =
     (let now = timeNow w h;
          oldJobs = JobsByMatcher w h
            (\<lambda>js. IsFinishedJob w js \<and> After (addDays w now (- DefaultTtlDays)) (Ts js));
          h1 = ageOut oldJobs h;
          h2 = advanceJobs (JobsByMatcher w h1 (IsActiveJob w)) h1
      in if \<not> paused m
         then (let h3 = advanceJobs (queuedJobs w h2) h2;
                   dequeuedJobs = orderedJobs w h3 JobStage_Dequeued
               in case (if length dequeuedJobs > 0
                        then dispatchDequeued w dequeuedJobs h3
                        else Ret (True, h3)) of
                    Panic p \<Rightarrow> Panic p
                  | Ret (True, h4) \<Rightarrow> Ret (snd (processAnchorJobs w m dequeuedJobs h4))
                  | Ret (False, h4) \<Rightarrow> Ret h4)
         else Ret h2)"

subsection \<open>postProcessJob\<close>

text \<open>
  \<open>strings.Split(s, sep)\<close> for a separator of one character: the fields between the
  separators, at least one field, the empty string giving one empty field.
\<close>

fun Split :: "string \<Rightarrow> char \<Rightarrow> string list" where
  "Split [] sep = [[]]"
| "Split (c # cs) sep =
     (if c = sep then [] # Split cs sep
      else (case Split cs sep of
              [] \<Rightarrow> [[c]]
            | field # rest \<Rightarrow> (c # field) # rest))"

text \<open>Indexing a slice at 0 panics when the slice is empty.\<close>

definition index0 :: "'a list \<Rightarrow> 'a go" where
  "index0 xs = (case xs of [] \<Rightarrow> Panic ''index out of range [0] with length 0'' | x # _ \<Rightarrow> Ret x)"

definition testWorkflowJob :: "World \<Rightarrow> JobManager \<Rightarrow> history \<Rightarrow> JobState" where
  "testWorkflowJob w m h =
     \<lparr>Stage = JobStage_Unset,
      Ts = Add (timeNow w h) DefaultWaitTime,
      JobId = [],
      Type = JobType_Workflow,
      ParamsMap = Some
        [JobParam_Source \<mapsto> VString ServiceName,
         WorkflowJobParam_Name \<mapsto> VString tests_Name,
         WorkflowJobParam_Org \<mapsto> VString tests_Org,
         WorkflowJobParam_Repo \<mapsto> VString tests_Repo,
         WorkflowJobParam_Ref \<mapsto> VString tests_Ref,
         WorkflowJobParam_Workflow \<mapsto> VString tests_Workflow,
         WorkflowJobParam_Inputs \<mapsto>
           VMap [(WorkflowJobParam_Environment, VString (mgr_env m)),
                 (WorkflowJobParam_TestSelector, VString tests_Selector)]]\<rparr>"

text \<open>
  The rollback job: \<open>component\<close> is the parameter of the failed job as it stands, and
  \<open>shaTag\<close> the first field of the deploy tag.
\<close>

definition rollbackJob :: "JobState \<Rightarrow> string \<Rightarrow> JobState" where
  "rollbackJob jobState shaTag =
     \<lparr>Stage = JobStage_Unset,
      Ts = zeroTime,
      JobId = [],
      Type = JobType_Deploy,
      ParamsMap = Some
        ((\<lambda>k. if k = JobParam_Component then Params jobState JobParam_Component else None)
         (JobParam_Rollback \<mapsto> VBool True,
          JobParam_Sha \<mapsto> VString DeployJobTarget_Rollback,
          JobParam_ShaTag \<mapsto> VString shaTag,
          JobParam_Force \<mapsto> VBool True,
          JobParam_Source \<mapsto> VString ServiceName))\<rparr>"

definition postProcessJob :: "World \<Rightarrow> JobManager \<Rightarrow> JobState \<Rightarrow> history \<Rightarrow> history go" where
  "postProcessJob w m jobState h =
     (if Type jobState = JobType_Deploy
      then (if Stage jobState = JobStage_Completed
            then (case NewJob w (testWorkflowJob w m h) h of
                    ((_, Some err), h') \<Rightarrow>
                      Ret (h' @ [EvLog ''postProcessJob: failed to queue test workflow after deploy''])
                  | ((_, None), h') \<Rightarrow> Ret h')
            else if Stage jobState = JobStage_Failed
            then (if \<not> fst (assertBool (Params jobState JobParam_Rollback))
                  then (case assertString (Params jobState JobParam_Component) of
                          (component, False) \<Rightarrow>
                            Ret (h @ [EvLog ''postProcessJob: missing component''])
                        | (component, True) \<Rightarrow>
                            (case getDeployTags w h of
                               Inl err \<Rightarrow>
                                 Ret (h @ [EvLog ''postProcessJob: failed to retrieve deploy tags''])
                             | Inr deployTags \<Rightarrow>
                                 (case deployTags component of
                                    None \<Rightarrow>
                                      Ret (h @ [EvLog ''postProcessJob: missing component build tag''])
                                  | Some deployTag \<Rightarrow>
                                      (case index0 (Split deployTag (CHR '','')) of
                                         Panic p \<Rightarrow> Panic p
                                       | Ret shaTag \<Rightarrow>
                                           (case NewJob w (rollbackJob jobState shaTag) h of
                                              ((_, Some err), h') \<Rightarrow>
                                                Ret (h' @ [EvLog ''postProcessJob: failed to queue rollback after failed deploy''])
                                            | ((_, None), h') \<Rightarrow> Ret h')))))
                  else Ret h)
            else Ret h)
      else Ret h)"

subsection \<open>prepareJobSm and the advancement task\<close>

text \<open>
  \<open>prepareJobSm\<close> builds the state machine for the job's type; only the constructors
  for Deploy and Workflow jobs return an error. A job of no known type is an error. On
  an error the job is moved to Failed.
\<close>

definition prepareJobSm :: "World \<Rightarrow> JobState \<Rightarrow> history \<Rightarrow> (error option \<times> history) go" where
  "prepareJobSm w jobState h =
     (case (case Type jobState of
              JobType_Deploy \<Rightarrow> smNew w h jobState
            | JobType_Workflow \<Rightarrow> smNew w h jobState
            | JobType_Unset \<Rightarrow> Ret (Some ''prepareJobSm: unknown job type'')
            | _ \<Rightarrow> (case smNew w h jobState of Panic p \<Rightarrow> Panic p | Ret _ \<Rightarrow> Ret None)) of
        Panic p \<Rightarrow> Panic p
      | Ret None \<Rightarrow> Ret (None, h)
      | Ret (Some err) \<Rightarrow>
          (case updateJobStage w jobState JobStage_Failed (Some err) h of
             (Some err', h') \<Rightarrow> Ret (Some err, h' @ [EvLog ''prepareJobSm: job update failed''])
           | (None, h') \<Rightarrow> Ret (Some err, h')))"

text \<open>
  The deferred function of the task, entered with the recovered value \<open>r\<close>: it prints
  the value and the stack, then moves the job to Failed with the first 1024 bytes of
  \<open>debug.Stack()\<close>. The slice expression \<open>s[:1024]\<close> panics when \<open>s\<close> is shorter than
  1024 bytes; a panic here is in the deferred function itself and leaves the goroutine.
\<close>

definition recoverPanic :: "World \<Rightarrow> JobState \<Rightarrow> string \<Rightarrow> history \<Rightarrow> history go" where
  "recoverPanic w jobState r h =
     (let h1 = h @ [EvPrint (''Panic while advancing job:  '' @ r),
                    EvPrint ''Stack Trace:'',
                    EvPrintStack];
          stack = debugStack w h1
      in if length stack < 1024
         then Panic ''runtime error: slice bounds out of range [:1024]''
         else (case updateJobStage w jobState JobStage_Failed
                      (Some (''panic: '' @ take 1024 stack)) h1 of
                 (Some err, h2) \<Rightarrow>
                   Ret (h2 @ [EvLog ''advanceJob: job update failed after panic''])
               | (None, h2) \<Rightarrow> Ret h2))"

text \<open>
  The goroutine that \<open>advanceJob\<close> starts. Its result is \<open>Ret\<close> when the goroutine
  ends normally, a recovered panic included, and \<open>Panic\<close> when a panic leaves it.
\<close>

definition advanceJobTask :: "World \<Rightarrow> JobManager \<Rightarrow> JobState \<Rightarrow> history \<Rightarrow> history go" where
  "advanceJobTask w m jobState h =
     (let currentJobStage = Stage jobState
      in case prepareJobSm w jobState h of
           Panic r \<Rightarrow> recoverPanic w jobState r h
         | Ret (Some err, h1) \<Rightarrow> Ret (h1 @ [EvLog ''advanceJob: job generation failed''])
         | Ret (None, h1) \<Rightarrow>
             (case smAdvance w h1 jobState of
                Panic r \<Rightarrow> recoverPanic w jobState r h1
              | Ret (newJobState, Some err) \<Rightarrow>
                  Ret (h1 @ [EvLog ''advanceJob: job advancement failed''])
              | Ret (newJobState, None) \<Rightarrow>
                  if Stage newJobState \<noteq> currentJobStage
                  then (case postProcessJob w m newJobState
                               (h1 @ [EvLog ''advanceJob: next job state'']) of
                          Panic r \<Rightarrow>
                            recoverPanic w jobState r (h1 @ [EvLog ''advanceJob: next job state''])
                        | Ret h2 \<Rightarrow> Ret h2)
                  else Ret h1))"

section \<open>The state machines of the jobs package\<close>

subsection \<open>Calls and collaborators\<close>

text \<open>
  The deploy and E2E test jobs work through the database, the deployment adapter and
  the notifier. As for the manager, the model threads the list of the calls made so far,
  oldest first, and every collaborator is a function of the calls before it. Reading the
  clock is a call too, so that two readings may differ.
\<close>

datatype call =
    CallGetDeployHashes
  | CallUpdateEnv ClusterLayout string
  | CallCheckEnv ClusterLayout
  | CallGenerateEnvLayout string
  | CallUpdateBuildHash string string
  | CallUpdateDeployHash string string
  | CallNotifyJob JobState
  | CallAdvanceJob JobState
  | CallUpdateJob JobState
  | CallLaunchService string string string string "(string \<times> string) list"
  | CallCheckTask bool string "string list"
  | CallNow
  | CallLog string

type_synonym calls = "call list"

record Deps =
  db_GetDeployHashes :: "calls \<Rightarrow> error + (string \<rightharpoonup> string)"
  db_UpdateBuildHash :: "calls \<Rightarrow> string \<Rightarrow> string \<Rightarrow> error option"
  db_UpdateDeployHash :: "calls \<Rightarrow> string \<Rightarrow> string \<Rightarrow> error option"
  db_AdvanceJob :: "calls \<Rightarrow> JobState \<Rightarrow> error option"
  db_UpdateJob :: "calls \<Rightarrow> JobState \<Rightarrow> error option"
  d_UpdateEnv :: "calls \<Rightarrow> ClusterLayout \<Rightarrow> string \<Rightarrow> error option"
  d_CheckEnv :: "calls \<Rightarrow> ClusterLayout \<Rightarrow> error + bool"
  d_GenerateEnvLayout :: "calls \<Rightarrow> string \<Rightarrow> error + ClusterLayout"
  d_LaunchService ::
    "calls \<Rightarrow> string \<Rightarrow> string \<Rightarrow> string \<Rightarrow> string \<Rightarrow> (string \<times> string) list \<Rightarrow> error + string"
  d_CheckTask :: "calls \<Rightarrow> bool \<Rightarrow> string \<Rightarrow> string list \<Rightarrow> error + bool"
  time_Now :: "calls \<Rightarrow> Time"
  os_Getenv :: "string \<Rightarrow> string"

text \<open>\<open>m[k]\<close> on a \<open>map[..]string\<close>: the empty string when the key is missing.\<close>

definition lookupString :: "(string \<rightharpoonup> string) \<Rightarrow> string \<Rightarrow> string" where
  "lookupString m k = (case m k of None \<Rightarrow> [] | Some v \<Rightarrow> v)"

text \<open>
  Modelled from the spec: \<open>manager.IsTimedOut\<close> is not among the sources. The spec
  says: in any non-Queued stage, if \<open>now - ts > DefaultFailureTime\<close>, the job times
  out. \<open>now\<close> is the clock read by the call.
\<close>

definition IsTimedOut :: "Time \<Rightarrow> JobState \<Rightarrow> Duration \<Rightarrow> bool" where
  "IsTimedOut now jobState delay = After (Add now (- delay)) (Ts jobState)"

subsection \<open>The deploy job\<close>

record deployJob =
  dj_state :: JobState
  dj_component :: string
  dj_sha :: string
  dj_manual :: bool

definition updateEnv :: "Deps \<Rightarrow> deployJob \<Rightarrow> string \<Rightarrow> calls \<Rightarrow> error option \<times> calls" where
  "updateEnv w d commitHash h =
     (case assertLayout (Params (dj_state d) JobParam_Layout) of
        (layout, True) \<Rightarrow>
          (d_UpdateEnv w h layout commitHash, h @ [CallUpdateEnv layout commitHash])
      | (layout, False) \<Rightarrow> (Some ''updateEnv: missing env layout'', h))"

definition checkEnv :: "Deps \<Rightarrow> deployJob \<Rightarrow> calls \<Rightarrow> (error + bool) \<times> calls" where
  "checkEnv w d h =
     (case assertLayout (Params (dj_state d) JobParam_Layout) of
        (layout, False) \<Rightarrow> (Inl ''checkEnv: missing env layout'', h)
      | (layout, True) \<Rightarrow>
          (let h1 = h @ [CallCheckEnv layout]
           in case d_CheckEnv w h layout of
                Inl err \<Rightarrow> (Inl err, h1)
              | Inr deployed \<Rightarrow>
                  if \<not> deployed \<or> dj_component d \<noteq> DeployComponent_Ipfs
                  then (Inr deployed, h1)
                  else (let h2 = h1 @ [CallGenerateEnvLayout DeployComponent_Ceramic]
                        in case d_GenerateEnvLayout w h1 DeployComponent_Ceramic of
                             Inl err \<Rightarrow>
                               (Inl err,
                                h2 @ [CallLog ''checkEnv: ceramic layout generation failed''])
                           | Inr ceramicLayout \<Rightarrow>
                               (d_CheckEnv w h2 ceramicLayout,
                                h2 @ [CallCheckEnv ceramicLayout]))))"

text \<open>
  The end of \<open>AdvanceJob\<close>: the notification on entry to Skipped, Started, Failed or
  Completed, and the database write whose error is the error of the call. The receiver
  is a copy, so this write is where the new stage reaches the store.
\<close>

definition notifyAndStore ::
  "Deps \<Rightarrow> JobState \<Rightarrow> calls \<Rightarrow> (JobState \<times> error option) go \<times> calls" where
  "notifyAndStore w state h =
     (let h1 = (if Stage state = JobStage_Skipped \<or> Stage state = JobStage_Started
                   \<or> Stage state = JobStage_Failed \<or> Stage state = JobStage_Completed
                then h @ [CallNotifyJob state] else h)
      in (Ret (state, db_AdvanceJob w h1 state), h1 @ [CallAdvanceJob state]))"

text \<open>
  A failure branch: the stage becomes Failed, the error text is written into the
  parameters, a line is logged, and the job is notified and stored. The write panics on
  the nil map, and then nothing more is done.
\<close>

definition failWith :: "JobState \<Rightarrow> string \<Rightarrow> JobState go" where
  "failWith state err =
     setParam (state\<lparr>Stage := JobStage_Failed\<rparr>) JobParam_Error (VString err)"

definition failJob ::
  "Deps \<Rightarrow> JobState \<Rightarrow> string \<Rightarrow> string \<Rightarrow> calls \<Rightarrow> (JobState \<times> error option) go \<times> calls" where
  "failJob w state err logLine h =
     (case failWith state err of
        Panic p \<Rightarrow> (Panic p, h)
      | Ret state' \<Rightarrow> notifyAndStore w state' (h @ [CallLog logLine]))"

text \<open>
  \<open>AdvanceJob\<close> returns the calls made together with its outcome: the job and the
  error of the database write, or a panic.
\<close>

definition deployJob_AdvanceJob ::
  "Deps \<Rightarrow> deployJob \<Rightarrow> calls \<Rightarrow> (JobState \<times> error option) go \<times> calls" where
  "deployJob_AdvanceJob w d h =
     (let state = dj_state d
      in if Stage state = JobStage_Queued
         then (let h1 = h @ [CallGetDeployHashes]
               in case db_GetDeployHashes w h of
                    Inl err \<Rightarrow>
                      failJob w state err ''deployJob: error fetching deploy hashes'' h1
                  | Inr deployHashes \<Rightarrow>
                      if \<not> dj_manual d \<and> dj_sha d = lookupString deployHashes (dj_component d)
                      then notifyAndStore w (state\<lparr>Stage := JobStage_Skipped\<rparr>)
                             (h1 @ [CallLog ''deployJob: commit hash same as deployed hash''])
                      else (case updateEnv w d (dj_sha d) h1 of
                              (Some err, h2) \<Rightarrow>
                                failJob w state err ''deployJob: error updating service'' h2
                            | (None, h2) \<Rightarrow>
                                (let h3 = h2 @ [CallNow]
                                 in case setParam (state\<lparr>Stage := JobStage_Started\<rparr>)
                                           JobParam_Start (VInt (UnixMilli (time_Now w h2))) of
                                      Panic p \<Rightarrow> (Panic p, h3)
                                    | Ret state' \<Rightarrow>
                                        (let h4 = h3 @ [CallUpdateBuildHash (dj_component d)
                                                          (dj_sha d)]
                                         in case db_UpdateBuildHash w h3 (dj_component d)
                                                   (dj_sha d) of
                                              Some err \<Rightarrow>
                                                notifyAndStore w state'
                                                  (h4 @ [CallLog
                                                     ''deployJob: failed to update build hash''])
                                            | None \<Rightarrow> notifyAndStore w state' h4))))
         else if IsTimedOut (time_Now w h) state DefaultFailureTime
         then failJob w state Error_Timeout ''deployJob: job run timed out'' (h @ [CallNow])
         else if Stage state = JobStage_Started
         then (case checkEnv w d (h @ [CallNow]) of
                 (Inl err, h1) \<Rightarrow>
                   failJob w state err ''deployJob: error checking services running status'' h1
               | (Inr True, h1) \<Rightarrow>
                   (let state' = state\<lparr>Stage := JobStage_Completed\<rparr>;
                        h2 = h1 @ [CallUpdateDeployHash (dj_component d) (dj_sha d)]
                    in case db_UpdateDeployHash w h1 (dj_component d) (dj_sha d) of
                         Some err \<Rightarrow>
                           notifyAndStore w state'
                             (h2 @ [CallLog ''deployJob: failed to update deploy hash''])
                       | None \<Rightarrow> notifyAndStore w state' h2)
               | (Inr False, h1) \<Rightarrow> (Ret (state, None), h1))
         else (Ret (state, Some ''deployJob: unexpected state''), h @ [CallNow]))"

subsection \<open>The E2E test job\<close>

definition FailureTime :: Duration where
  "FailureTime = 2 * Hour"

definition E2eTest_PrivatePublic :: string where
  "E2eTest_PrivatePublic = ''private-public''"

definition E2eTest_LocalClientPublic :: string where
  "E2eTest_LocalClientPublic = ''local_client-public''"

definition E2eTest_LocalNodePrivate :: string where
  "E2eTest_LocalNodePrivate = ''local_node-private''"

text \<open>
  The job is its state; the receiver is a copy, so a change of stage or time reaches
  the caller only through \<open>db.UpdateJob\<close>, while a write into \<open>Params\<close> goes to the
  map that the copies share.
\<close>

definition e2eOverrides :: "Deps \<Rightarrow> string \<Rightarrow> (string \<times> string) list" where
  "e2eOverrides w config =
     [(''NODE_ENV'', config),
      (''ETH_RPC_URL'', os_Getenv w ''ETH_RPC_URL''),
      (''AWS_ACCESS_KEY_ID'', os_Getenv w ''AWS_ACCESS_KEY_ID''),
      (''AWS_SECRET_ACCESS_KEY'', os_Getenv w ''AWS_SECRET_ACCESS_KEY''),
      (''AWS_REGION'', os_Getenv w ''AWS_REGION'')]"

text \<open>
  \<open>startE2eTest\<close> launches one suite and writes its task id into the parameters; the
  write panics on the nil map, after the launch.
\<close>

definition startE2eTest ::
  "Deps \<Rightarrow> JobState \<Rightarrow> string \<Rightarrow> calls \<Rightarrow> ((error option \<times> JobState) \<times> calls) go" where
  "startE2eTest w state config h =
     (let h1 = h @ [CallLaunchService ''ceramic-qa-tests'' ''ceramic-qa-tests-e2e_tests''
                      ''ceramic-qa-tests-e2e_tests'' ''e2e_tests'' (e2eOverrides w config)]
      in case d_LaunchService w h ''ceramic-qa-tests'' ''ceramic-qa-tests-e2e_tests''
                ''ceramic-qa-tests-e2e_tests'' ''e2e_tests'' (e2eOverrides w config) of
           Inl err \<Rightarrow> Ret ((Some err, state), h1)
         | Inr taskId \<Rightarrow>
             (case setParam state config (VString taskId) of
                Panic p \<Rightarrow> Panic p
              | Ret state' \<Rightarrow> Ret ((None, state'), h1)))"

definition startE2eTests ::
  "Deps \<Rightarrow> JobState \<Rightarrow> calls \<Rightarrow> ((error option \<times> JobState) \<times> calls) go" where
  "startE2eTests w state h =
     (case startE2eTest w state E2eTest_PrivatePublic h of
        Panic p \<Rightarrow> Panic p
      | Ret ((Some err, state1), h1) \<Rightarrow> Ret ((Some err, state1), h1)
      | Ret ((None, state1), h1) \<Rightarrow>
          (case startE2eTest w state1 E2eTest_LocalClientPublic h1 of
             Panic p \<Rightarrow> Panic p
           | Ret ((Some err, state2), h2) \<Rightarrow> Ret ((Some err, state2), h2)
           | Ret ((None, state2), h2) \<Rightarrow>
               startE2eTest w state2 E2eTest_LocalNodePrivate h2))"

text \<open>One \<open>CheckTask\<close> of \<open>checkE2eTests\<close>: the task id is read with \<open>.(string)\<close>.\<close>

definition checkE2eTest :: "Deps \<Rightarrow> JobState \<Rightarrow> bool \<Rightarrow> string \<Rightarrow> calls \<Rightarrow> ((error + bool) \<times> calls) go" where
  "checkE2eTest w state isRunning config h =
     (case mustString (Params state config) of
        Panic p \<Rightarrow> Panic p
      | Ret taskId \<Rightarrow>
          Ret (d_CheckTask w h isRunning ''ceramic-qa-tests'' [taskId],
               h @ [CallCheckTask isRunning ''ceramic-qa-tests'' [taskId]]))"

definition checkE2eTests :: "Deps \<Rightarrow> JobState \<Rightarrow> bool \<Rightarrow> calls \<Rightarrow> ((error + bool) \<times> calls) go" where
  "checkE2eTests w state isRunning h =
     (case checkE2eTest w state isRunning E2eTest_PrivatePublic h of
        Panic p \<Rightarrow> Panic p
      | Ret (Inl err, h1) \<Rightarrow> Ret (Inl err, h1)
      | Ret (Inr privatePublic, h1) \<Rightarrow>
          (case checkE2eTest w state isRunning E2eTest_LocalClientPublic h1 of
             Panic p \<Rightarrow> Panic p
           | Ret (Inl err, h2) \<Rightarrow> Ret (Inl err, h2)
           | Ret (Inr localClientPublic, h2) \<Rightarrow>
               (case checkE2eTest w state isRunning E2eTest_LocalNodePrivate h2 of
                  Panic p \<Rightarrow> Panic p
                | Ret (Inl err, h3) \<Rightarrow> Ret (Inl err, h3)
                | Ret (Inr localNodePrivate, h3) \<Rightarrow>
                    Ret (Inr (privatePublic \<and> localClientPublic \<and> localNodePrivate), h3))))"

text \<open>The end of \<open>AdvanceJob\<close>: the time is set and the state goes to \<open>db.UpdateJob\<close>.\<close>

definition stampAndStore :: "Deps \<Rightarrow> JobState \<Rightarrow> calls \<Rightarrow> error option \<times> calls" where
  "stampAndStore w state h =
     (let state' = state\<lparr>Ts := time_Now w h\<rparr>;
          h1 = h @ [CallNow]
      in (db_UpdateJob w h1 state', h1 @ [CallUpdateJob state']))"

definition e2eTestJob_AdvanceJob :: "Deps \<Rightarrow> JobState \<Rightarrow> calls \<Rightarrow> (error option \<times> calls) go" where
  "e2eTestJob_AdvanceJob w state h =
     (if Stage state = JobStage_Queued
      then (case startE2eTests w state h of
              Panic p \<Rightarrow> Panic p
            | Ret ((Some err, state'), h1) \<Rightarrow>
                Ret (stampAndStore w (state'\<lparr>Stage := JobStage_Failed\<rparr>) h1)
            | Ret ((None, state'), h1) \<Rightarrow>
                Ret (stampAndStore w (state'\<lparr>Stage := JobStage_Started\<rparr>) h1))
      else if After (Add (time_Now w h) (- FailureTime)) (Ts state)
      then Ret (stampAndStore w (state\<lparr>Stage := JobStage_Failed\<rparr>) (h @ [CallNow]))
      else if Stage state = JobStage_Started
      then (case checkE2eTests w state True (h @ [CallNow]) of
              Panic p \<Rightarrow> Panic p
            | Ret (Inl err, h1) \<Rightarrow> Ret (stampAndStore w (state\<lparr>Stage := JobStage_Failed\<rparr>) h1)
            | Ret (Inr True, h1) \<Rightarrow> Ret (stampAndStore w (state\<lparr>Stage := JobStage_Waiting\<rparr>) h1)
            | Ret (Inr False, h1) \<Rightarrow> Ret (None, h1))
      else if Stage state = JobStage_Waiting
      then (case checkE2eTests w state False (h @ [CallNow]) of
              Panic p \<Rightarrow> Panic p
            | Ret (Inl err, h1) \<Rightarrow> Ret (stampAndStore w (state\<lparr>Stage := JobStage_Failed\<rparr>) h1)
            | Ret (Inr True, h1) \<Rightarrow> Ret (stampAndStore w (state\<lparr>Stage := JobStage_Completed\<rparr>) h1)
            | Ret (Inr False, h1) \<Rightarrow> Ret (None, h1))
      else Ret (Some ''anchorJob: unexpected state'', h @ [CallNow]))"

text \<open>The calls of a given kind in a list of calls.\<close>

fun isUpdateEnv :: "call \<Rightarrow> bool" where
  "isUpdateEnv (CallUpdateEnv layout sha) = True"
| "isUpdateEnv _ = False"

fun isCheckEnv :: "call \<Rightarrow> bool" where
  "isCheckEnv (CallCheckEnv layout) = True"
| "isCheckEnv _ = False"

fun isGenerateEnvLayout :: "call \<Rightarrow> bool" where
  "isGenerateEnvLayout (CallGenerateEnvLayout component) = True"
| "isGenerateEnvLayout _ = False"

text \<open>The calls that tell the notifier or the database of a job.\<close>

fun isStoreCall :: "call \<Rightarrow> bool" where
  "isStoreCall (CallNotifyJob js) = True"
| "isStoreCall (CallAdvanceJob js) = True"
| "isStoreCall _ = False"

section \<open>Reading a history\<close>

text \<open>
  The jobs for which an advancement task was started, the jobs moved to a given stage
  by \<open>updateJobStage\<close>, and the jobs handed to \<open>db.QueueJob\<close>, each in the order
  of the history.
\<close>

fun advancedOf :: "event \<Rightarrow> JobState list" where
  "advancedOf (EvAdvanceJob js) = [js]"
| "advancedOf _ = []"

fun stagedOf :: "JobStage \<Rightarrow> event \<Rightarrow> JobState list" where
  "stagedOf stage (EvUpdateJobStage js stage' e) = (if stage' = stage then [js] else [])"
| "stagedOf stage _ = []"

fun queuedOf :: "event \<Rightarrow> JobState list" where
  "queuedOf (EvQueueJob js) = [js]"
| "queuedOf _ = []"

definition advancedJobs :: "history \<Rightarrow> JobState list" where
  "advancedJobs h = concat (map advancedOf h)"

definition stagedJobs :: "JobStage \<Rightarrow> history \<Rightarrow> JobState list" where
  "stagedJobs stage h = concat (map (stagedOf stage) h)"

definition queuedNewJobs :: "history \<Rightarrow> JobState list" where
  "queuedNewJobs h = concat (map queuedOf h)"

text \<open>
  The dequeued anchors of one partition (v5 when \<open>processV5Jobs\<close>, v2 otherwise), in
  queue order, and the active anchors of that partition in the cache.
\<close>

definition partitionAnchors :: "World \<Rightarrow> bool \<Rightarrow> JobState list \<Rightarrow> JobState list" where
  "partitionAnchors w processV5Jobs dequeuedJobs =
     filter (\<lambda>js. Type js = JobType_Anchor \<and> processV5Jobs = IsV5WorkerJob w js) dequeuedJobs"

definition activeAnchors :: "World \<Rightarrow> bool \<Rightarrow> history \<Rightarrow> JobState list" where
  "activeAnchors w processV5Jobs h =
     filter (\<lambda>js. IsActiveJob w js \<and> Type js = JobType_Anchor
                  \<and> processV5Jobs = IsV5WorkerJob w js) (cacheJobs w h)"

text \<open>The event of a stage update that carries no error.\<close>

definition stageEv :: "JobStage \<Rightarrow> JobState \<Rightarrow> event" where
  "stageEv stage js = EvUpdateJobStage js stage None"

text \<open>What \<open>NewJob\<close> makes of the synthetic anchor of the top-up loop.\<close>

definition isSyntheticAnchor :: "JobState \<Rightarrow> bool" where
  "isSyntheticAnchor js =
     (Type js = JobType_Anchor \<and> Stage js = JobStage_Queued
      \<and> Params js = [JobParam_Source \<mapsto> VString ServiceName])"

text \<open>
  The words of the force-deploy rule, to compare \<open>processForceDeployJobs\<close> with: a
  force deploy is a Deploy job whose \<open>force\<close> parameter is true; the survivor of a
  component is the last force deploy for it in the dequeued list.
\<close>

definition componentOf :: "JobState \<Rightarrow> string" where
  "componentOf js = fst (assertString (Params js JobParam_Component))"

definition hasComponent :: "JobState \<Rightarrow> bool" where
  "hasComponent js = snd (assertString (Params js JobParam_Component))"

definition isForceDeploy :: "JobState \<Rightarrow> bool" where
  "isForceDeploy js =
     (Type js = JobType_Deploy \<and> fst (assertBool (Params js JobParam_Force)))"

definition spec_forceDeploysFor :: "JobState list \<Rightarrow> string \<Rightarrow> JobState list" where
  "spec_forceDeploysFor dequeuedJobs component =
     filter (\<lambda>js. isForceDeploy js \<and> componentOf js = component) dequeuedJobs"

definition spec_survivor :: "JobState list \<Rightarrow> string \<Rightarrow> JobState option" where
  "spec_survivor dequeuedJobs component =
     (case spec_forceDeploysFor dequeuedJobs component of
        [] \<Rightarrow> None
      | js # rest \<Rightarrow> Some (last (js # rest)))"

definition spec_skipped :: "JobState list \<Rightarrow> JobState list" where
  "spec_skipped dequeuedJobs =
     filter (\<lambda>js. Type js = JobType_Deploy \<and>
                  (case spec_survivor dequeuedJobs (componentOf js) of
                     None \<Rightarrow> False
                   | Some forceDeploy \<Rightarrow> JobId js \<noteq> JobId forceDeploy))
       dequeuedJobs"

definition spec_canceled :: "JobState list \<Rightarrow> JobState list \<Rightarrow> JobState list" where
  "spec_canceled dequeuedJobs activeDeploys =
     filter (\<lambda>js. spec_survivor dequeuedJobs (componentOf js) \<noteq> None) activeDeploys"

definition spec_override ::
  "World \<Rightarrow> JobState list \<Rightarrow> (string \<times> JobState) list \<Rightarrow> history \<Rightarrow> history" where
  "spec_override w dequeuedJobs forceDeploys h =
     (let h1 = h @ map (stageEv JobStage_Skipped) (spec_skipped dequeuedJobs);
          h2 = h1 @ map (stageEv JobStage_Canceled)
                      (spec_canceled dequeuedJobs (getActiveDeploys w h1))
      in h2 @ map EvAdvanceJob (map snd forceDeploys))"

text \<open>
  The history of a tick at the moment \<open>processJobs\<close> reads the Dequeued list: old
  jobs aged out, the active jobs and the queued jobs advanced.
\<close>

definition tickIngest :: "World \<Rightarrow> history \<Rightarrow> history" where
  "tickIngest w h =
     (let now = timeNow w h;
          oldJobs = JobsByMatcher w h
            (\<lambda>js. IsFinishedJob w js \<and> After (addDays w now (- DefaultTtlDays)) (Ts js));
          h1 = ageOut oldJobs h;
          h2 = advanceJobs (JobsByMatcher w h1 (IsActiveJob w)) h1
      in advanceJobs (queuedJobs w h2) h2)"

section \<open>Concrete inputs\<close>

definition emptyCluster :: ecsClient where
  "emptyCluster = \<lparr>DescribeTasks = (\<lambda>i. Inr \<lparr>dto_Tasks = []\<rparr>)\<rparr>"

text \<open>
  A world for concrete runs: a fixed cache, a store that accepts every write, jobs
  active while Started or Waiting, a v5 worker marked by the parameter \<open>v5\<close>.
\<close>

definition mkJob :: "string \<Rightarrow> JobType \<Rightarrow> JobStage \<Rightarrow> Params \<Rightarrow> JobState" where
  "mkJob i t s p = \<lparr>Stage = s, Ts = 0, JobId = i, Type = t, ParamsMap = Some p\<rparr>"

definition testWorld :: "JobState list \<Rightarrow> World" where
  "testWorld cache =
     \<lparr>cacheJobs = (\<lambda>h. cache),
      advanceJobErr = (\<lambda>h js stage e. None),
      queueJobErr = (\<lambda>h js. None),
      queuedJobs = (\<lambda>h. []),
      orderedJobs = (\<lambda>h stage. []),
      getDeployTags = (\<lambda>h. Inr Map.empty),
      IsActiveJob = (\<lambda>js. Stage js = JobStage_Started \<or> Stage js = JobStage_Waiting),
      IsFinishedJob = (\<lambda>js. Stage js = JobStage_Skipped \<or> Stage js = JobStage_Canceled
                            \<or> Stage js = JobStage_Failed \<or> Stage js = JobStage_Completed),
      IsV5WorkerJob = (\<lambda>js. fst (assertBool (Params js ''v5''))),
      uuidNew = (\<lambda>h. ''id-'' @ replicate (length h) (CHR ''i'')),
      timeNow = (\<lambda>h. int (length h)),
      addDays = (\<lambda>t d. t + d * 24 * Hour),
      debugStack = (\<lambda>h. []),
      smNew = (\<lambda>h js. Ret None),
      smAdvance = (\<lambda>h js. Ret (js, None))\<rparr>"

definition testManager :: "int \<Rightarrow> int \<Rightarrow> JobManager" where
  "testManager maxJobs minJobs =
     \<lparr>maxAnchorJobs = maxJobs, minAnchorJobs = minJobs, paused = False, mgr_env = ''dev''\<rparr>"

definition anchorA :: JobState where
  "anchorA = mkJob ''a'' JobType_Anchor JobStage_Started Map.empty"

definition anchorB :: JobState where
  "anchorB = mkJob ''b'' JobType_Anchor JobStage_Dequeued Map.empty"

definition anchorC :: JobState where
  "anchorC = mkJob ''c'' JobType_Anchor JobStage_Dequeued Map.empty"

definition anchorV5 :: JobState where
  "anchorV5 = mkJob ''v'' JobType_Anchor JobStage_Dequeued [''v5'' \<mapsto> VBool True]"

definition activeIpfs :: JobState where
  "activeIpfs = mkJob ''d0'' JobType_Deploy JobStage_Started
     [JobParam_Component \<mapsto> VString ''ipfs'', JobParam_Sha \<mapsto> VString ''abc'']"

definition oldIpfs :: JobState where
  "oldIpfs = mkJob ''d1'' JobType_Deploy JobStage_Dequeued
     [JobParam_Component \<mapsto> VString ''ipfs'', JobParam_Sha \<mapsto> VString ''bcd'']"

definition forceIpfs :: JobState where
  "forceIpfs = mkJob ''d2'' JobType_Deploy JobStage_Dequeued
     [JobParam_Component \<mapsto> VString ''ipfs'', JobParam_Sha \<mapsto> VString ''def'',
      JobParam_Force \<mapsto> VBool True]"

definition forceWorld :: World where
  "forceWorld = (testWorld [activeIpfs])\<lparr>orderedJobs := (\<lambda>h stage. [oldIpfs, forceIpfs])\<rparr>"

definition tagWorld :: World where
  "tagWorld = (testWorld [])
     \<lparr>getDeployTags := (\<lambda>h. Inr [''ceramic'' \<mapsto> ''sha-ceramic-xyz,prod''])\<rparr>"

definition failedCeramic :: JobState where
  "failedCeramic = mkJob ''d3'' JobType_Deploy JobStage_Failed
     [JobParam_Component \<mapsto> VString ''ceramic'', JobParam_Sha \<mapsto> VString ''abc'',
      JobParam_Error \<mapsto> VString Error_Timeout]"

definition failedRollback :: JobState where
  "failedRollback = mkJob ''d4'' JobType_Deploy JobStage_Failed
     [JobParam_Component \<mapsto> VString ''ceramic'', JobParam_Sha \<mapsto> VString ''rollback'',
      JobParam_Rollback \<mapsto> VBool True]"

definition failedBare :: JobState where
  "failedBare = mkJob ''d5'' JobType_Deploy JobStage_Failed Map.empty"

text \<open>
  A world in which advancing a job panics and \<open>debug.Stack()\<close> returns a trace of
  fewer than 1024 bytes.
\<close>

definition shortStack :: string where
  "shortStack = ''goroutine 34 [running]: runtime/debug.Stack() jobmanager.advanceJob.func1.1()''"

definition panicWorld :: World where
  "panicWorld = (testWorld [])
     \<lparr>debugStack := (\<lambda>h. shortStack),
      smAdvance := (\<lambda>h js. Panic ''assignment to entry in nil map'')\<rparr>"

text \<open>
  Collaborators of the jobs package for concrete runs: every call succeeds, the deployed
  hash of Ceramic is \<open>abc\<close>, the clock stands at 1000 seconds, and \<open>CheckEnv\<close>
  answers \<open>deployed\<close>.
\<close>

definition ceramicDevLayout :: ClusterLayout where
  "ceramicDevLayout = [''ceramic-dev'' \<mapsto> Some [''ceramic-dev-node'' \<mapsto> ()]]"

definition ipfsDevLayout :: ClusterLayout where
  "ipfsDevLayout = [''ceramic-dev'' \<mapsto> Some [''ceramic-dev-ipfs-nd'' \<mapsto> ()]]"

definition jobsWorld :: "bool \<Rightarrow> Deps" where
  "jobsWorld deployed =
     \<lparr>db_GetDeployHashes = (\<lambda>h. Inr [''ceramic'' \<mapsto> ''abc'']),
      db_UpdateBuildHash = (\<lambda>h component sha. None),
      db_UpdateDeployHash = (\<lambda>h component sha. None),
      db_AdvanceJob = (\<lambda>h js. None),
      db_UpdateJob = (\<lambda>h js. None),
      d_UpdateEnv = (\<lambda>h layout sha. None),
      d_CheckEnv = (\<lambda>h layout. Inr deployed),
      d_GenerateEnvLayout = (\<lambda>h component. Inr ceramicDevLayout),
      d_LaunchService = (\<lambda>h cluster service family container overrides. Inr ''task''),
      d_CheckTask = (\<lambda>h running cluster tasks. Inr True),
      time_Now = (\<lambda>h. 1000 * Second),
      os_Getenv = (\<lambda>name. [])\<rparr>"

definition deployOf :: "string \<Rightarrow> JobStage \<Rightarrow> string \<Rightarrow> string \<Rightarrow> ClusterLayout \<Rightarrow> deployJob" where
  "deployOf i stage component sha layout =
     \<lparr>dj_state = mkJob i JobType_Deploy stage
        [JobParam_Component \<mapsto> VString component, JobParam_Sha \<mapsto> VString sha,
         JobParam_Layout \<mapsto> VLayout layout],
      dj_component = component, dj_sha = sha, dj_manual = False\<rparr>"

definition sameShaDeploy :: deployJob where
  "sameShaDeploy = deployOf ''d6'' JobStage_Queued ''ceramic'' ''abc'' ceramicDevLayout"

definition newShaDeploy :: deployJob where
  "newShaDeploy = deployOf ''d7'' JobStage_Queued ''ceramic'' ''def'' ceramicDevLayout"

definition ipfsStarted :: deployJob where
  "ipfsStarted = deployOf ''d8'' JobStage_Started ''ipfs'' ''def'' ipfsDevLayout"

definition ceramicStarted :: deployJob where
  "ceramicStarted = deployOf ''d9'' JobStage_Started ''ceramic'' ''def'' ceramicDevLayout"

text \<open>
  The same collaborators, except that \<open>CheckEnv\<close> answers true only while no layout
  has been generated: the probe of the job's own layout succeeds and the probe of the
  Ceramic layout generated after it does not.
\<close>

definition ceramicDownWorld :: Deps where
  "ceramicDownWorld =
     (jobsWorld True)\<lparr>d_CheckEnv := (\<lambda>h layout. Inr (filter isGenerateEnvLayout h = []))\<rparr>"

text \<open>
  An E2E test job in Waiting whose three tasks were launched at time 0, and a clock that
  stands two hours and one second later.
\<close>

definition e2eWaiting :: JobState where
  "e2eWaiting = mkJob ''e1'' JobType_TestE2E JobStage_Waiting
     [E2eTest_PrivatePublic \<mapsto> VString ''t1'',
      E2eTest_LocalClientPublic \<mapsto> VString ''t2'',
      E2eTest_LocalNodePrivate \<mapsto> VString ''t3'']"

definition lateWorld :: Deps where
  "lateWorld = (jobsWorld True)\<lparr>time_Now := (\<lambda>h. 2 * Hour + Second)\<rparr>"

section \<open>Theorems: reading and writing the parameters\<close>

lemma Params_Stage_update [simp]: "Params (js\<lparr>Stage := s\<rparr>) = Params js"
  by (simp add: Params_def)

lemma Params_Ts_update [simp]: "Params (js\<lparr>Ts := t\<rparr>) = Params js"
  by (simp add: Params_def)

lemma Params_JobId_update [simp]: "Params (js\<lparr>JobId := i\<rparr>) = Params js"
  by (simp add: Params_def)

lemma Params_Type_update [simp]: "Params (js\<lparr>Type := t\<rparr>) = Params js"
  by (simp add: Params_def)

lemma Params_ParamsMap_update [simp]: "Params (js\<lparr>ParamsMap := Some m\<rparr>) = m"
  by (simp add: Params_def)

lemma Params_make [simp]:
  "Params \<lparr>Stage = s, Ts = t, JobId = i, Type = ty, ParamsMap = Some m\<rparr> = m"
  "Params \<lparr>Stage = s, Ts = t, JobId = i, Type = ty, ParamsMap = None\<rparr> = Map.empty"
  by (simp_all add: Params_def)

lemma Params_entry_not_nil: "Params js k = Some v \<Longrightarrow> \<exists>m. ParamsMap js = Some m \<and> Params js = m"
  by (cases "ParamsMap js") (simp_all add: Params_def)

text \<open>
  On a job whose parameter map is nil every write panics: a failure branch of the deploy
  job panics before it logs, notifies or stores anything, and \<open>startE2eTest\<close> panics
  once the suite has been launched.
\<close>

lemma setParam_nil:
  "ParamsMap js = None \<Longrightarrow> setParam js k v = Panic ''assignment to entry in nil map''"
  by (simp add: setParam_def)

lemma failJob_nil:
  "ParamsMap state = None \<Longrightarrow>
     failJob w state err logLine h = (Panic ''assignment to entry in nil map'', h)"
  by (simp add: failJob_def failWith_def setParam_def)

lemma startE2eTest_nil:
  assumes "ParamsMap state = None"
    and "d_LaunchService w h ''ceramic-qa-tests'' ''ceramic-qa-tests-e2e_tests''
           ''ceramic-qa-tests-e2e_tests'' ''e2e_tests'' (e2eOverrides w config) = Inr taskId"
  shows "startE2eTest w state config h = Panic ''assignment to entry in nil map''"
  using assms by (simp add: startE2eTest_def setParam_def Let_def)

section \<open>Theorems: the ECS deployment adapter\<close>


text \<open>
  C10. When the describe call succeeds and returns no task record, \<open>CheckTask\<close> returns
  \<open>(false, nil)\<close>: not matching, with no error and no panic, whatever status was asked
  for and whatever task ARNs were given.
\<close>

theorem CheckTask_no_tasks:
  assumes "DescribeTasks c \<lparr>dti_Cluster = cluster, dti_Tasks = taskArn\<rparr> = Inr out"
    and "dto_Tasks out = []"
  shows "CheckTask c running cluster taskArn = Ret (False, None)"
  using assms by (simp add: CheckTask_def)

theorem CheckTask_no_tasks_witness:
  "CheckTask emptyCluster True ''ceramic-qa-tests'' [''arn:task/1''] = Ret (False, None)
   \<and> CheckTask emptyCluster False ''ceramic-qa-tests'' [] = Ret (False, None)"
proof -
  have d: "\<And>cl ts. DescribeTasks emptyCluster \<lparr>dti_Cluster = cl, dti_Tasks = ts\<rparr>
             = Inr \<lparr>dto_Tasks = []\<rparr>"
    by (simp add: emptyCluster_def)
  have e: "dto_Tasks \<lparr>dto_Tasks = []\<rparr> = []" by simp
  show ?thesis
    using CheckTask_no_tasks [OF d e, of True "''ceramic-qa-tests''" "[''arn:task/1'']"]
      CheckTask_no_tasks [OF d e, of False "''ceramic-qa-tests''" "[]"]
    by simp
qed

text \<open>
  C9, as the code has it. For every environment, the layout generated for the Cas
  component has three cluster keys: \<open>ceramic-{env}\<close> and \<open>ceramic-{env}-ex\<close>, each
  holding the nil service map, and \<open>ceramic-{env}-cas\<close>, holding exactly the two
  services \<open>ceramic-{env}-cas-api\<close> and \<open>ceramic-{env}-cas-anchor\<close>.
\<close>

theorem PopulateLayout_Cas:
  "\<exists>l m. PopulateLayout e env DeployComponent_Cas = Inr l
     \<and> dom l = {''ceramic-'' @ env, ''ceramic-'' @ env @ ''-ex'', ''ceramic-'' @ env @ ''-cas''}
     \<and> l (''ceramic-'' @ env) = Some None
     \<and> l (''ceramic-'' @ env @ ''-ex'') = Some None
     \<and> l (''ceramic-'' @ env @ ''-cas'') = Some (Some m)
     \<and> dom m = {''ceramic-'' @ env @ ''-cas-api'', ''ceramic-'' @ env @ ''-cas-anchor''}"
  by (auto simp: PopulateLayout_def DeployComponent_Cas_def DeployComponent_Ceramic_def
      DeployComponent_Ipfs_def Let_def)

text \<open>
  That the Cas layout has no cluster key but \<open>ceramic-{env}-cas\<close> is false in
  \<open>dev\<close>: the key \<open>ceramic-dev\<close> is present, bound to the nil service map.
\<close>

theorem PopulateLayout_Cas_counterexample:
  "clusterEntry (PopulateLayout \<lparr>ecs_env = ''dev''\<rparr> ''dev'' DeployComponent_Cas) ''ceramic-dev''
     = Some None
   \<and> clusterKeys (PopulateLayout \<lparr>ecs_env = ''dev''\<rparr> ''dev'' DeployComponent_Cas)
     \<noteq> {''ceramic-dev-cas''}"
  by (auto simp: PopulateLayout_def clusterEntry_def clusterKeys_def DeployComponent_Cas_def
      DeployComponent_Ceramic_def DeployComponent_Ipfs_def Let_def)

section \<open>Theorems: the anchor dispatch\<close>

lemma advancedJobs_append: "advancedJobs (xs @ ys) = advancedJobs xs @ advancedJobs ys"
  by (simp add: advancedJobs_def)
lemma stagedJobs_append: "stagedJobs s (xs @ ys) = stagedJobs s xs @ stagedJobs s ys"
  by (simp add: stagedJobs_def)
lemma queuedNewJobs_append: "queuedNewJobs (xs @ ys) = queuedNewJobs xs @ queuedNewJobs ys"
  by (simp add: queuedNewJobs_def)

lemma advancedJobs_advance: "advancedJobs (map EvAdvanceJob js) = js"
  by (induction js) (auto simp: advancedJobs_def)
lemma stagedJobs_advance: "stagedJobs s (map EvAdvanceJob js) = []"
  by (induction js) (auto simp: stagedJobs_def)
lemma queuedNewJobs_advance: "queuedNewJobs (map EvAdvanceJob js) = []"
  by (induction js) (auto simp: queuedNewJobs_def)
lemma advancedJobs_staged: "advancedJobs (map (stageEv s) js) = []"
  by (induction js) (auto simp: advancedJobs_def stageEv_def)
lemma stagedJobs_staged: "stagedJobs s (map (stageEv s') js) = (if s' = s then js else [])"
  by (induction js) (auto simp: stagedJobs_def stageEv_def)
lemma queuedNewJobs_staged: "queuedNewJobs (map (stageEv s) js) = []"
  by (induction js) (auto simp: queuedNewJobs_def stageEv_def)
lemma advancedJobs_Nil: "advancedJobs [] = []" by (simp add: advancedJobs_def)
lemma stagedJobs_Nil: "stagedJobs s [] = []" by (simp add: stagedJobs_def)
lemma queuedNewJobs_Nil: "queuedNewJobs [] = []" by (simp add: queuedNewJobs_def)

lemma advanceJobs_eq: "advanceJobs js h = h @ map EvAdvanceJob js"
proof -
  have "foldl (\<lambda>h' js. advanceJob js h') h js = h @ map EvAdvanceJob js"
    by (induction js arbitrary: h) (auto simp: advanceJob_def)
  thus ?thesis by (cases js) (auto simp: advanceJobs_def)
qed

lemma queueAnchors_events:
  "\<exists>evs. queueAnchors w n h = h @ evs \<and> advancedJobs evs = [] \<and> (\<forall>s. stagedJobs s evs = [])
     \<and> length (queuedNewJobs evs) = n
     \<and> (\<forall>js \<in> set (queuedNewJobs evs). isSyntheticAnchor js)"
proof (induction n arbitrary: h)
  case 0 show ?case by (simp add: advancedJobs_def stagedJobs_def queuedNewJobs_def)
next
  case (Suc n)
  obtain js e h' where nj: "NewJob w syntheticAnchor h = ((js, e), h')"
    by (metis prod.exhaust)
  have h': "h' = h @ [EvQueueJob js]" and js: "isSyntheticAnchor js"
    using nj by (auto simp: NewJob_def Let_def syntheticAnchor_def isSyntheticAnchor_def split: if_splits)
  show ?case
  proof (cases e)
    case None
    from Suc.IH[of h'] obtain evs where evs: "queueAnchors w n h' = h' @ evs" "advancedJobs evs = []"
      "\<forall>s. stagedJobs s evs = []" "length (queuedNewJobs evs) = n"
      "\<forall>js \<in> set (queuedNewJobs evs). isSyntheticAnchor js" by blast
    have "queueAnchors w (Suc n) h = h @ (EvQueueJob js # evs)"
      using nj None evs(1) h' by simp
    moreover have "advancedJobs (EvQueueJob js # evs) = []" using evs(2) by (simp add: advancedJobs_def)
    moreover have "\<forall>s. stagedJobs s (EvQueueJob js # evs) = []" using evs(3) by (simp add: stagedJobs_def)
    moreover have "queuedNewJobs (EvQueueJob js # evs) = js # queuedNewJobs evs" by (simp add: queuedNewJobs_def)
    ultimately show ?thesis using evs(4,5) js by (intro exI[of _ "EvQueueJob js # evs"]) simp
  next
    case (Some err)
    let ?l = "EvLog ''processVxAnchorJobs: failed to queue additional anchor job''"
    from Suc.IH[of "h' @ [?l]"] obtain evs where evs: "queueAnchors w n (h' @ [?l]) = (h' @ [?l]) @ evs" "advancedJobs evs = []"
      "\<forall>s. stagedJobs s evs = []" "length (queuedNewJobs evs) = n"
      "\<forall>js \<in> set (queuedNewJobs evs). isSyntheticAnchor js" by blast
    have "queueAnchors w (Suc n) h = h @ (EvQueueJob js # ?l # evs)"
      using nj Some evs(1) h' by simp
    moreover have "advancedJobs (EvQueueJob js # ?l # evs) = []" using evs(2) by (simp add: advancedJobs_def)
    moreover have "\<forall>s. stagedJobs s (EvQueueJob js # ?l # evs) = []" using evs(3) by (simp add: stagedJobs_def)
    moreover have "queuedNewJobs (EvQueueJob js # ?l # evs) = js # queuedNewJobs evs" by (simp add: queuedNewJobs_def)
    ultimately show ?thesis using evs(4,5) js by (intro exI[of _ "EvQueueJob js # ?l # evs"]) simp
  qed
qed

lemma admitAnchors_free:
  assumes "processV5Jobs \<or> maxAnchorJobs m = - 1"
  shows "admitAnchors w m processV5Jobs a js acc h = (False, acc @ partitionAnchors w processV5Jobs js, h)"
  using assms by (induction js arbitrary: acc) (auto simp: partitionAnchors_def)

lemma admitAnchors_capped:
  assumes ok: "\<forall>h js. advanceJobErr w h js JobStage_Skipped None = None"
    and "\<not> processV5Jobs" "maxAnchorJobs m \<noteq> - 1"
  shows "admitAnchors w m processV5Jobs a js acc h =
          (False,
           acc @ take (nat (maxAnchorJobs m - int a - int (length acc))) (partitionAnchors w processV5Jobs js),
           h @ map (stageEv JobStage_Skipped) (drop (nat (maxAnchorJobs m - int a - int (length acc))) (partitionAnchors w processV5Jobs js)))"
  using assms
proof (induction js arbitrary: acc h)
  case Nil then show ?case by (simp add: partitionAnchors_def)
next
  case (Cons j js)
  show ?case
  proof (cases "Type j = JobType_Anchor \<and> processV5Jobs = IsV5WorkerJob w j")
    case False
    then show ?thesis using Cons by (auto simp: partitionAnchors_def)
  next
    case True
    show ?thesis
    proof (cases "int a + int (length acc) < maxAnchorJobs m")
      case t: True
      hence pos: "0 < maxAnchorJobs m - int a - int (length acc)" by linarith
      then obtain r where r: "nat (maxAnchorJobs m - int a - int (length acc)) = Suc r"
        by (cases "nat (maxAnchorJobs m - int a - int (length acc))") auto
      hence r': "nat (maxAnchorJobs m - int a - int (length (acc @ [j]))) = r" by simp
      show ?thesis using True t Cons.prems Cons.IH[of "acc @ [j]" h] r r'
        by (simp add: partitionAnchors_def)
    next
      case f: False
      hence z: "nat (maxAnchorJobs m - int a - int (length acc)) = 0" by simp
      show ?thesis using True f Cons.prems z
          Cons.IH[of acc "h @ [EvUpdateJobStage j JobStage_Skipped None]"]
        by (simp add: partitionAnchors_def updateJobStage_def stageEv_def)
    qed
  qed
qed


lemma processVx_eq:
  assumes "admitAnchors w m v5 (length (activeAnchors w v5 h)) dequeuedJobs [] h = (False, A, h @ map (stageEv JobStage_Skipped) S)"
  shows "\<exists>evs. processVxAnchorJobs w m dequeuedJobs v5 h = (A \<noteq> [], h @ evs)
     \<and> advancedJobs evs = A \<and> stagedJobs JobStage_Skipped evs = S"
proof -
  let ?h1 = "(h @ map (stageEv JobStage_Skipped) S) @ map EvAdvanceJob A"
  obtain tevs where t: "queueAnchors w (nat (wrap64 (minAnchorJobs m - int (length A)))) ?h1 = ?h1 @ tevs"
     "advancedJobs tevs = []" "\<forall>s. stagedJobs s tevs = []"
    using queueAnchors_events[of w _ ?h1] by blast
  let ?evs = "map (stageEv JobStage_Skipped) S @ map EvAdvanceJob A @ (if v5 then [] else tevs)"
  have "processVxAnchorJobs w m dequeuedJobs v5 h = (A \<noteq> [], h @ ?evs)"
    using assms t(1)
    by (simp add: processVxAnchorJobs_def JobsByMatcher_def activeAnchors_def advanceJobs_eq Let_def)
  moreover have "advancedJobs ?evs = A"
    using t(2) by (simp add: advancedJobs_append advancedJobs_advance advancedJobs_staged advancedJobs_Nil)
  moreover have "stagedJobs JobStage_Skipped ?evs = S"
    using t(3) by (simp add: stagedJobs_append stagedJobs_advance stagedJobs_staged stagedJobs_Nil)
  ultimately show ?thesis by blast
qed

text \<open>
  One pass of the anchor dispatch over one partition (v5 or v2), when the store
  accepts the Skipped transitions. The dequeued anchors of the partition split, in queue
  order, into the admitted ones, for which an advancement task is started, and the
  others, each moved to Skipped. The anchor at position \<open>i\<close> is admitted if and only
  if it is a v5 worker, or \<open>maxAnchorJobs = -1\<close>, or the number of active anchors of
  the partition plus the number admitted before it is below \<open>maxAnchorJobs\<close>. For
  the v2 partition and \<open>maxAnchorJobs \<ge> 0\<close>, active plus admitted does not exceed
  \<open>maxAnchorJobs\<close>, unless the active anchors alone already did, and then none is
  admitted.
\<close>

lemma processVxAnchorJobs_admission:
  assumes ok: "\<forall>h' js. advanceJobErr w h' js JobStage_Skipped None = None"
  shows "\<exists>admitted skipped evs.
      processVxAnchorJobs w m dequeuedJobs processV5Jobs h = (admitted \<noteq> [], h @ evs)
    \<and> admitted @ skipped = partitionAnchors w processV5Jobs dequeuedJobs
    \<and> advancedJobs evs = admitted
    \<and> stagedJobs JobStage_Skipped evs = skipped
    \<and> (\<forall>i < length (admitted @ skipped).
         (i < length admitted) =
         (IsV5WorkerJob w ((admitted @ skipped) ! i) \<or> maxAnchorJobs m = - 1
           \<or> int (length (activeAnchors w processV5Jobs h)) + int (length (take i admitted))
                < maxAnchorJobs m))
    \<and> (\<not> processV5Jobs \<and> 0 \<le> maxAnchorJobs m \<longrightarrow>
         int (length (activeAnchors w processV5Jobs h)) + int (length admitted)
           \<le> max (int (length (activeAnchors w processV5Jobs h))) (maxAnchorJobs m))"
proof -
  let ?P = "partitionAnchors w processV5Jobs dequeuedJobs"
  let ?a = "length (activeAnchors w processV5Jobs h)"
  have inP: "\<And>i. i < length ?P \<Longrightarrow> IsV5WorkerJob w (?P ! i) = processV5Jobs"
  proof -
    fix i assume "i < length ?P"
    hence "?P ! i \<in> set ?P" by simp
    thus "IsV5WorkerJob w (?P ! i) = processV5Jobs" by (auto simp: partitionAnchors_def)
  qed
  show ?thesis
  proof (cases "processV5Jobs \<or> maxAnchorJobs m = - 1")
    case True
    have "admitAnchors w m processV5Jobs ?a dequeuedJobs [] h = (False, ?P, h @ map (stageEv JobStage_Skipped) [])"
      using admitAnchors_free[OF True] by simp
    from processVx_eq[OF this] obtain evs where
      e: "processVxAnchorJobs w m dequeuedJobs processV5Jobs h = (?P \<noteq> [], h @ evs)"
         "advancedJobs evs = ?P" "stagedJobs JobStage_Skipped evs = []" by blast
    have iff: "\<forall>i < length (?P @ []). (i < length ?P) =
         (IsV5WorkerJob w ((?P @ []) ! i) \<or> maxAnchorJobs m = - 1
           \<or> int ?a + int (length (take i ?P)) < maxAnchorJobs m)"
      using True inP by auto
    have bound: "\<not> processV5Jobs \<and> 0 \<le> maxAnchorJobs m \<longrightarrow>
         int ?a + int (length ?P) \<le> max (int ?a) (maxAnchorJobs m)"
      using True by auto
    show ?thesis
      using e iff bound by (intro exI[of _ ?P] exI[of _ "[]"] exI[of _ evs]) simp
  next
    case False
    let ?k = "nat (maxAnchorJobs m - int ?a)"
    have "admitAnchors w m processV5Jobs ?a dequeuedJobs [] h
            = (False, take ?k ?P, h @ map (stageEv JobStage_Skipped) (drop ?k ?P))"
      using admitAnchors_capped[OF ok, of processV5Jobs m ?a dequeuedJobs "[]" h] False by simp
    from processVx_eq[OF this] obtain evs where
      e: "processVxAnchorJobs w m dequeuedJobs processV5Jobs h = (take ?k ?P \<noteq> [], h @ evs)"
         "advancedJobs evs = take ?k ?P" "stagedJobs JobStage_Skipped evs = drop ?k ?P" by blast
    have iff: "\<forall>i < length (take ?k ?P @ drop ?k ?P). (i < length (take ?k ?P)) =
         (IsV5WorkerJob w ((take ?k ?P @ drop ?k ?P) ! i) \<or> maxAnchorJobs m = - 1
           \<or> int ?a + int (length (take i (take ?k ?P))) < maxAnchorJobs m)"
    proof (intro allI impI)
      fix i assume "i < length (take ?k ?P @ drop ?k ?P)"
      hence i: "i < length ?P" by simp
      have nv5: "\<not> IsV5WorkerJob w (?P ! i)" using inP[OF i] False by simp
      have "(i < ?k) = (int ?a + int (min i (min ?k (length ?P))) < maxAnchorJobs m)"
        using i by (auto simp: min_def)
      thus "(i < length (take ?k ?P)) =
         (IsV5WorkerJob w ((take ?k ?P @ drop ?k ?P) ! i) \<or> maxAnchorJobs m = - 1
           \<or> int ?a + int (length (take i (take ?k ?P))) < maxAnchorJobs m)"
        using i nv5 False by (simp add: min.commute min.left_commute)
    qed
    have bound: "\<not> processV5Jobs \<and> 0 \<le> maxAnchorJobs m \<longrightarrow>
         int ?a + int (length (take ?k ?P)) \<le> max (int ?a) (maxAnchorJobs m)"
      by auto
    show ?thesis
      using e iff bound
      by (intro exI[of _ "take ?k ?P"] exI[of _ "drop ?k ?P"] exI[of _ evs]) simp
  qed
qed

lemma processVxAnchorJobs_admission_witness:
  "\<exists>admitted skipped evs.
      processVxAnchorJobs (testWorld [anchorA]) (testManager 2 0) [anchorB, anchorC] False []
        = (admitted \<noteq> [], [] @ evs)
    \<and> admitted @ skipped = [anchorB, anchorC]
    \<and> advancedJobs evs = admitted
    \<and> stagedJobs JobStage_Skipped evs = skipped
    \<and> length admitted = 1"
proof -
  have ok: "\<forall>h' js. advanceJobErr (testWorld [anchorA]) h' js JobStage_Skipped None = None"
    by (simp add: testWorld_def)
  have p: "partitionAnchors (testWorld [anchorA]) False [anchorB, anchorC] = [anchorB, anchorC]"
    by (simp add: partitionAnchors_def testWorld_def anchorB_def anchorC_def mkJob_def
        assertBool_def)
  have a: "length (activeAnchors (testWorld [anchorA]) False []) = 1"
    by (simp add: activeAnchors_def testWorld_def anchorA_def mkJob_def assertBool_def)
  from processVxAnchorJobs_admission [OF ok, of "testManager 2 0" "[anchorB, anchorC]" False "[]"]
  obtain admitted skipped evs where
    r: "processVxAnchorJobs (testWorld [anchorA]) (testManager 2 0) [anchorB, anchorC] False []
          = (admitted \<noteq> [], [] @ evs)"
       "admitted @ skipped = [anchorB, anchorC]"
       "advancedJobs evs = admitted" "stagedJobs JobStage_Skipped evs = skipped"
    and iff: "\<forall>i < length (admitted @ skipped).
         (i < length admitted) =
         (IsV5WorkerJob (testWorld [anchorA]) ((admitted @ skipped) ! i)
           \<or> maxAnchorJobs (testManager 2 0) = - 1
           \<or> int (length (activeAnchors (testWorld [anchorA]) False []))
                + int (length (take i admitted)) < maxAnchorJobs (testManager 2 0))"
    unfolding p by blast
  have len: "length (admitted @ skipped) = 2" using r(2) by simp
  have v5: "\<And>i. i < 2 \<Longrightarrow> \<not> IsV5WorkerJob (testWorld [anchorA]) ((admitted @ skipped) ! i)"
    unfolding r(2)
    by (auto simp: testWorld_def anchorB_def anchorC_def mkJob_def assertBool_def less_2_cases_iff)
  have l0: "0 < length (admitted @ skipped)" and l1: "1 < length (admitted @ skipped)"
    using len by simp_all
  have i0: "0 < length admitted"
    using iff [rule_format, OF l0] v5 [of 0] a by (simp add: testManager_def)
  have i1: "\<not> 1 < length admitted"
    using iff [rule_format, OF l1] v5 [of 1] a i0 by (simp add: testManager_def min_def)
  have "length admitted = 1" using i0 i1 by linarith
  thus ?thesis using r by blast
qed

text \<open>
  The bound on the v2 anchors holds whatever the store answers: when a Skipped
  transition fails the pass returns at once and starts no task.
\<close>

lemma admitAnchors_any:
  assumes "admitAnchors w m processV5Jobs a js acc h = (f, A, h')"
  shows "(\<exists>S. h' = h @ map (stageEv JobStage_Skipped) S)
     \<and> (\<not> processV5Jobs \<and> maxAnchorJobs m \<noteq> - 1 \<longrightarrow>
          int a + int (length A) \<le> max (int a + int (length acc)) (maxAnchorJobs m))"
  using assms
proof (induction js arbitrary: acc h)
  case Nil
  then show ?case by (auto intro: exI[of _ "[]"])
next
  case (Cons j js)
  show ?case
  proof (cases "Type j = JobType_Anchor \<and> processV5Jobs = IsV5WorkerJob w j")
    case False
    then show ?thesis using Cons.IH[of acc h] Cons.prems by auto
  next
    case True
    show ?thesis
    proof (cases "IsV5WorkerJob w j \<or> maxAnchorJobs m = - 1
               \<or> int a + int (length acc) < maxAnchorJobs m")
      case t: True
      hence "admitAnchors w m processV5Jobs a js (acc @ [j]) h = (f, A, h')"
        using True Cons.prems by simp
      from Cons.IH[OF this] show ?thesis using True t by auto
    next
      case f: False
      show ?thesis
      proof (cases "advanceJobErr w h j JobStage_Skipped None")
        case None
        hence "admitAnchors w m processV5Jobs a js acc (h @ [stageEv JobStage_Skipped j]) = (f, A, h')"
          using True f Cons.prems by (simp add: updateJobStage_def stageEv_def)
        from Cons.IH[OF this] obtain S where
          S: "h' = (h @ [stageEv JobStage_Skipped j]) @ map (stageEv JobStage_Skipped) S"
          and b: "\<not> processV5Jobs \<and> maxAnchorJobs m \<noteq> - 1 \<longrightarrow>
            int a + int (length A) \<le> max (int a + int (length acc)) (maxAnchorJobs m)"
          by blast
        from S have "h' = h @ map (stageEv JobStage_Skipped) (j # S)" by simp
        thus ?thesis using b by blast
      next
        case (Some err)
        hence "h' = h @ map (stageEv JobStage_Skipped) [j]" "A = acc"
          using True f Cons.prems by (auto simp: updateJobStage_def stageEv_def)
        thus ?thesis by (metis max.cobounded1)
      qed
    qed
  qed
qed

lemma processVxAnchorJobs_bound:
  assumes "0 \<le> maxAnchorJobs m"
  shows "\<exists>b evs. processVxAnchorJobs w m dequeuedJobs False h = (b, h @ evs)
     \<and> int (length (activeAnchors w False h)) + int (length (advancedJobs evs))
         \<le> max (int (length (activeAnchors w False h))) (maxAnchorJobs m)"
proof -
  let ?a = "length (activeAnchors w False h)"
  obtain f A h' where r: "admitAnchors w m False ?a dequeuedJobs [] h = (f, A, h')"
    by (metis prod_cases3)
  from admitAnchors_any[OF r] assms obtain S where
    S: "h' = h @ map (stageEv JobStage_Skipped) S"
    and b: "int ?a + int (length A) \<le> max (int ?a) (maxAnchorJobs m)" by auto
  show ?thesis
  proof (cases f)
    case True
    hence "processVxAnchorJobs w m dequeuedJobs False h = (True, h @ map (stageEv JobStage_Skipped) S)"
      using r S by (simp add: processVxAnchorJobs_def JobsByMatcher_def activeAnchors_def)
    thus ?thesis by (auto simp: advancedJobs_staged)
  next
    case False
    let ?h1 = "(h @ map (stageEv JobStage_Skipped) S) @ map EvAdvanceJob A"
    obtain tevs where t: "queueAnchors w (nat (wrap64 (minAnchorJobs m - int (length A)))) ?h1 = ?h1 @ tevs"
       "advancedJobs tevs = []"
      using queueAnchors_events[of w _ ?h1] by blast
    have "processVxAnchorJobs w m dequeuedJobs False h
        = (A \<noteq> [], h @ (map (stageEv JobStage_Skipped) S @ map EvAdvanceJob A @ tevs))"
      using r S False t(1)
      by (simp add: processVxAnchorJobs_def JobsByMatcher_def activeAnchors_def advanceJobs_eq Let_def)
    moreover have "advancedJobs (map (stageEv JobStage_Skipped) S @ map EvAdvanceJob A @ tevs) = A"
      using t(2) by (simp add: advancedJobs_append advancedJobs_advance advancedJobs_staged)
    ultimately show ?thesis using b by auto
  qed
qed

lemmas test_defs = testWorld_def testManager_def anchorA_def anchorB_def anchorC_def anchorV5_def
  mkJob_def assertBool_def

text \<open>
  C3. The dispatch is meant to run the v5 pass and the v2 pass on every tick that
  reaches it. With one v5 anchor and one v2 anchor dequeued, no deploy active,
  \<open>maxAnchorJobs = 2\<close> and \<open>minAnchorJobs = 2\<close>, the v5 pass admits its anchor
  and returns true, and the \<open>||\<close> of \<open>processAnchorJobs\<close> never evaluates the v2
  pass: the v2 anchor is neither advanced nor skipped and no synthetic anchor is
  queued. The v2 pass, had it run, would have advanced the v2 anchor and queued one
  synthetic anchor.
\<close>

theorem processAnchorJobs_v5_shadows_v2:
  "processAnchorJobs (testWorld []) (testManager 2 2) [anchorV5, anchorB] []
     = (True, [EvAdvanceJob anchorV5])
   \<and> advancedJobs (snd (processVxAnchorJobs (testWorld []) (testManager 2 2)
                          [anchorV5, anchorB] False [])) = [anchorB]
   \<and> length (queuedNewJobs (snd (processVxAnchorJobs (testWorld []) (testManager 2 2)
                          [anchorV5, anchorB] False []))) = 1"
  by (simp add: processAnchorJobs_def processVxAnchorJobs_def getActiveDeploys_def
      JobsByMatcher_def advanceJobs_def advanceJob_def test_defs Let_def wrap64_def
      NewJob_def syntheticAnchor_def advancedJobs_def queuedNewJobs_def updateJobStage_def
      numeral_2_eq_2)

text \<open>
  C2. Every Dequeued anchor that meets the admission condition is meant to be advanced,
  and every other one moved to Skipped, so that none lingers in the queue. With one v5
  anchor and one v2 anchor dequeued, no anchor and no deploy active and
  \<open>maxAnchorJobs = 2\<close>, the v2 anchor meets the condition (no active v2 anchor and
  none admitted, below 2). The dispatch admits the v5 anchor and returns true, and the
  \<open>||\<close> of \<open>processAnchorJobs\<close> never evaluates the v2 pass: the v2 anchor is
  neither advanced nor moved to Skipped. The v2 pass, had it run, would have advanced
  it.
\<close>

theorem processAnchorJobs_v2_anchor_lingers:
  "processAnchorJobs (testWorld []) (testManager 2 0) [anchorV5, anchorB] []
     = (True, [EvAdvanceJob anchorV5])
   \<and> partitionAnchors (testWorld []) False [anchorV5, anchorB] = [anchorB]
   \<and> Stage anchorB = JobStage_Dequeued
   \<and> \<not> IsV5WorkerJob (testWorld []) anchorB
   \<and> int (length (activeAnchors (testWorld []) False [])) + 0
        < maxAnchorJobs (testManager 2 0)
   \<and> advancedJobs (snd (processAnchorJobs (testWorld []) (testManager 2 0)
                          [anchorV5, anchorB] [])) = [anchorV5]
   \<and> anchorB \<noteq> anchorV5
   \<and> stagedJobs JobStage_Skipped (snd (processAnchorJobs (testWorld []) (testManager 2 0)
                          [anchorV5, anchorB] [])) = []
   \<and> advancedJobs (snd (processVxAnchorJobs (testWorld []) (testManager 2 0)
                          [anchorV5, anchorB] False [])) = [anchorB]"
  by (simp add: processAnchorJobs_def processVxAnchorJobs_def getActiveDeploys_def
      JobsByMatcher_def advanceJobs_def advanceJob_def test_defs Let_def wrap64_def
      advancedJobs_def stagedJobs_def updateJobStage_def partitionAnchors_def
      activeAnchors_def numeral_2_eq_2)

section \<open>Theorems: the force-deploy override\<close>

lemma mustString_hasComponent:
  "hasComponent js \<Longrightarrow> mustString (Params js JobParam_Component) = Ret (componentOf js)"
  by (auto simp: hasComponent_def componentOf_def mustString_def assertString_def
      split: option.splits Value.splits)

lemma collectForceDeploys_map_of:
  assumes "\<forall>js \<in> set jobs. Type js = JobType_Deploy \<longrightarrow> hasComponent js"
  shows "\<exists>fd'. collectForceDeploys jobs fd = Ret fd'
      \<and> (distinct (map fst fd) \<longrightarrow> distinct (map fst fd'))
      \<and> (\<forall>c. map_of fd' c =
            (case spec_forceDeploysFor jobs c of [] \<Rightarrow> map_of fd c
             | js # rest \<Rightarrow> Some (last (js # rest))))"
  using assms
proof (induction jobs arbitrary: fd)
  case Nil
  then show ?case by (simp add: spec_forceDeploysFor_def)
next
  case (Cons j jobs)
  show ?case
  proof (cases "isForceDeploy j")
    case False
    then have "collectForceDeploys (j # jobs) fd = collectForceDeploys jobs fd"
      by (auto simp: isForceDeploy_def)
    moreover have "\<And>c. spec_forceDeploysFor (j # jobs) c = spec_forceDeploysFor jobs c"
      using False by (simp add: spec_forceDeploysFor_def)
    ultimately show ?thesis using Cons.IH[of fd] Cons.prems by simp
  next
    case True
    hence hc: "hasComponent j" using Cons.prems by (simp add: isForceDeploy_def)
    let ?fd = "AList.update (componentOf j) j fd"
    have step: "collectForceDeploys (j # jobs) fd = collectForceDeploys jobs ?fd"
      using True mustString_hasComponent[OF hc] by (simp add: isForceDeploy_def)
    from Cons.IH[of ?fd] Cons.prems obtain fd' where
      fd': "collectForceDeploys jobs ?fd = Ret fd'"
        "distinct (map fst ?fd) \<longrightarrow> distinct (map fst fd')"
        "\<forall>c. map_of fd' c = (case spec_forceDeploysFor jobs c of [] \<Rightarrow> map_of ?fd c
             | js # rest \<Rightarrow> Some (last (js # rest)))" by auto
    have d: "distinct (map fst fd) \<longrightarrow> distinct (map fst fd')"
      using fd'(2) by (simp add: distinct_update)
    have m: "\<forall>c. map_of fd' c =
            (case spec_forceDeploysFor (j # jobs) c of [] \<Rightarrow> map_of fd c
             | js # rest \<Rightarrow> Some (last (js # rest)))"
    proof
      fix c
      show "map_of fd' c =
            (case spec_forceDeploysFor (j # jobs) c of [] \<Rightarrow> map_of fd c
             | js # rest \<Rightarrow> Some (last (js # rest)))"
        using fd'(3)[rule_format, of c] True
        by (cases "spec_forceDeploysFor jobs c")
           (auto simp: spec_forceDeploysFor_def update_conv' split: list.splits)
    qed
    show ?thesis using step fd'(1) d m by simp
  qed
qed

lemma collectForceDeploys_survivor:
  assumes "\<forall>js \<in> set jobs. Type js = JobType_Deploy \<longrightarrow> hasComponent js"
  shows "\<exists>fd. collectForceDeploys jobs [] = Ret fd \<and> distinct (map fst fd)
      \<and> map_of fd = spec_survivor jobs"
proof -
  from collectForceDeploys_map_of[OF assms, of "[]"] obtain fd where
    fd: "collectForceDeploys jobs [] = Ret fd" "distinct (map fst fd)"
      "\<forall>c. map_of fd c = (case spec_forceDeploysFor jobs c of [] \<Rightarrow> map_of [] c
             | js # rest \<Rightarrow> Some (last (js # rest)))" by auto
  have "map_of fd = spec_survivor jobs"
    using fd(3) by (auto simp: spec_survivor_def fun_eq_iff split: list.splits)
  thus ?thesis using fd by blast
qed

lemma skipForcedDeploys_ok:
  assumes "\<forall>js \<in> set jobs. Type js = JobType_Deploy \<longrightarrow> hasComponent js"
    and ok: "\<forall>h' js. advanceJobErr w h' js JobStage_Skipped None = None"
  shows "skipForcedDeploys w fd jobs h =
     Ret (False, h @ map (stageEv JobStage_Skipped)
        (filter (\<lambda>js. Type js = JobType_Deploy \<and>
                  (case map_of fd (componentOf js) of
                     None \<Rightarrow> False
                   | Some forceDeploy \<Rightarrow> JobId js \<noteq> JobId forceDeploy)) jobs))"
  using assms(1)
proof (induction jobs arbitrary: h)
  case Nil then show ?case by simp
next
  case (Cons j jobs)
  show ?case
  proof (cases "Type j = JobType_Deploy")
    case False then show ?thesis using Cons by simp
  next
    case True
    hence ms: "mustString (Params j JobParam_Component) = Ret (componentOf j)"
      using Cons.prems mustString_hasComponent by simp
    show ?thesis
      using True ms ok Cons.IH Cons.prems
      by (auto simp: updateJobStage_def stageEv_def split: option.splits)
  qed
qed

lemma cancelActiveDeploys_ok:
  assumes "\<forall>js \<in> set jobs. hasComponent js"
    and ok: "\<forall>h' js. advanceJobErr w h' js JobStage_Canceled None = None"
  shows "cancelActiveDeploys w fd jobs h =
     Ret (False, h @ map (stageEv JobStage_Canceled)
        (filter (\<lambda>js. map_of fd (componentOf js) \<noteq> None) jobs))"
  using assms(1)
proof (induction jobs arbitrary: h)
  case Nil then show ?case by simp
next
  case (Cons j jobs)
  have ms: "mustString (Params j JobParam_Component) = Ret (componentOf j)"
    using Cons.prems mustString_hasComponent by simp
  show ?case
    using ms ok Cons.IH Cons.prems
    by (auto simp: updateJobStage_def stageEv_def split: option.splits)
qed

lemma processJobs_dispatch:
  assumes "\<not> paused m" and "orderedJobs w (tickIngest w h) JobStage_Dequeued = dequeuedJobs"
    and "dequeuedJobs \<noteq> []"
  shows "processJobs w m h =
    (case dispatchDequeued w dequeuedJobs (tickIngest w h) of
       Panic p \<Rightarrow> Panic p
     | Ret (True, h4) \<Rightarrow> Ret (snd (processAnchorJobs w m dequeuedJobs h4))
     | Ret (False, h4) \<Rightarrow> Ret h4)"
  using assms(1,3) unfolding assms(2) [symmetric] processJobs_def tickIngest_def Let_def
  by simp

text \<open>
  C1. Let the dequeued list hold at least one force deploy, let every Deploy job in it
  and every active Deploy of the cache carry its component (the constructor of the
  deploy state machine fails a job without one before it is dequeued), and let the store
  accept the stage updates. Then \<open>processForceDeployJobs\<close> keeps one job per
  component, the last force deploy for it in the list; moves every other Deploy job of
  the list for such a component to Skipped, then every active Deploy of the cache for
  such a component to Canceled; starts an advancement task for each kept job; and
  returns true. In \<open>processJobs\<close> that result clears \<open>processAnchorJobs\<close>: the
  tick ends with the history of the override, so the anchor dispatch does not run.
\<close>

theorem processForceDeployJobs_override:
  assumes wf: "\<forall>js \<in> set dequeuedJobs. Type js = JobType_Deploy \<longrightarrow> hasComponent js"
    and wfA: "\<forall>h'. \<forall>js \<in> set (getActiveDeploys w h'). hasComponent js"
    and force: "\<exists>js \<in> set dequeuedJobs. isForceDeploy js"
    and ok: "\<forall>h' js stage. advanceJobErr w h' js stage None = None"
  shows "\<exists>forceDeploys.
       distinct (map fst forceDeploys)
     \<and> map_of forceDeploys = spec_survivor dequeuedJobs
     \<and> (\<forall>h. processForceDeployJobs w dequeuedJobs h
              = Ret (True, spec_override w dequeuedJobs forceDeploys h))
     \<and> (\<forall>h. \<not> paused m \<and> orderedJobs w (tickIngest w h) JobStage_Dequeued = dequeuedJobs
            \<longrightarrow> processJobs w m h
              = Ret (spec_override w dequeuedJobs forceDeploys
                       (tickIngest w h @ [EvLog ''processJobs: dequeued jobs''])))"
proof -
  from collectForceDeploys_survivor[OF wf] obtain fd where
    fd: "collectForceDeploys dequeuedJobs [] = Ret fd" "distinct (map fst fd)"
        "map_of fd = spec_survivor dequeuedJobs" by blast
  from force obtain j where j: "j \<in> set dequeuedJobs" "isForceDeploy j" by blast
  hence "spec_forceDeploysFor dequeuedJobs (componentOf j) \<noteq> []"
    by (auto simp: spec_forceDeploysFor_def filter_empty_conv)
  hence "spec_survivor dequeuedJobs (componentOf j) \<noteq> None"
    by (auto simp: spec_survivor_def split: list.splits)
  hence ne: "fd \<noteq> []" using fd(3) by (metis map_of.simps(1))
  have ne': "dequeuedJobs \<noteq> []" using j(1) by auto
  have P: "\<And>h. processForceDeployJobs w dequeuedJobs h
              = Ret (True, spec_override w dequeuedJobs fd h)"
  proof -
    fix h
    have s: "skipForcedDeploys w fd dequeuedJobs h
        = Ret (False, h @ map (stageEv JobStage_Skipped) (spec_skipped dequeuedJobs))"
      using skipForcedDeploys_ok[OF wf, of w fd h] ok
      by (simp add: spec_skipped_def fd(3))
    have c: "\<And>h1. cancelActiveDeploys w fd (getActiveDeploys w h1) h1
        = Ret (False, h1 @ map (stageEv JobStage_Canceled)
             (spec_canceled dequeuedJobs (getActiveDeploys w h1)))"
      using cancelActiveDeploys_ok[of _ w fd] wfA ok
      by (simp add: spec_canceled_def fd(3))
    show "processForceDeployJobs w dequeuedJobs h
              = Ret (True, spec_override w dequeuedJobs fd h)"
      using fd(1) ne s c
      by (simp add: processForceDeployJobs_def spec_override_def Let_def advanceJobs_eq)
  qed
  have T: "\<And>h. \<not> paused m \<and> orderedJobs w (tickIngest w h) JobStage_Dequeued = dequeuedJobs
            \<longrightarrow> processJobs w m h
              = Ret (spec_override w dequeuedJobs fd
                       (tickIngest w h @ [EvLog ''processJobs: dequeued jobs'']))"
  proof (intro impI)
    fix h
    assume a: "\<not> paused m \<and> orderedJobs w (tickIngest w h) JobStage_Dequeued = dequeuedJobs"
    have "dispatchDequeued w dequeuedJobs (tickIngest w h)
        = Ret (False, spec_override w dequeuedJobs fd
                       (tickIngest w h @ [EvLog ''processJobs: dequeued jobs'']))"
      by (simp add: dispatchDequeued_def Let_def P)
    thus "processJobs w m h
              = Ret (spec_override w dequeuedJobs fd
                       (tickIngest w h @ [EvLog ''processJobs: dequeued jobs'']))"
      using processJobs_dispatch[of m w h dequeuedJobs] a ne' by simp
  qed
  show ?thesis using fd(2,3) P T by blast
qed

lemmas param_defs = JobParam_Component_def JobParam_Sha_def JobParam_ShaTag_def
  JobParam_Rollback_def JobParam_Force_def JobParam_Manual_def JobParam_Layout_def
  JobParam_Error_def JobParam_Start_def JobParam_Source_def

lemmas force_defs = forceWorld_def testWorld_def testManager_def activeIpfs_def oldIpfs_def
  forceIpfs_def mkJob_def assertBool_def assertString_def hasComponent_def componentOf_def
  isForceDeploy_def param_defs

theorem processForceDeployJobs_override_witness:
  "(\<exists>forceDeploys.
       distinct (map fst forceDeploys)
     \<and> map_of forceDeploys = spec_survivor [oldIpfs, forceIpfs]
     \<and> processForceDeployJobs forceWorld [oldIpfs, forceIpfs] []
          = Ret (True, spec_override forceWorld [oldIpfs, forceIpfs] forceDeploys [])
     \<and> processJobs forceWorld (testManager 1 0) []
          = Ret (spec_override forceWorld [oldIpfs, forceIpfs] forceDeploys
                   (tickIngest forceWorld [] @ [EvLog ''processJobs: dequeued jobs''])))
   \<and> spec_survivor [oldIpfs, forceIpfs] ''ipfs'' = Some forceIpfs
   \<and> spec_skipped [oldIpfs, forceIpfs] = [oldIpfs]
   \<and> spec_canceled [oldIpfs, forceIpfs] (getActiveDeploys forceWorld [stageEv JobStage_Skipped oldIpfs])
       = [activeIpfs]"
proof -
  have wf: "\<forall>js \<in> set [oldIpfs, forceIpfs]. Type js = JobType_Deploy \<longrightarrow> hasComponent js"
    by (simp add: force_defs)
  have wfA: "\<forall>h'. \<forall>js \<in> set (getActiveDeploys forceWorld h'). hasComponent js"
    by (simp add: getActiveDeploys_def JobsByMatcher_def force_defs)
  have force: "\<exists>js \<in> set [oldIpfs, forceIpfs]. isForceDeploy js"
    by (simp add: force_defs)
  have ok: "\<forall>h' js stage. advanceJobErr forceWorld h' js stage None = None"
    by (simp add: force_defs)
  have tick: "\<not> paused (testManager 1 0)
     \<and> orderedJobs forceWorld (tickIngest forceWorld []) JobStage_Dequeued = [oldIpfs, forceIpfs]"
    by (simp add: force_defs)
  have sv: "spec_survivor [oldIpfs, forceIpfs] ''ipfs'' = Some forceIpfs"
    by (simp add: spec_survivor_def spec_forceDeploysFor_def force_defs)
  have sk: "spec_skipped [oldIpfs, forceIpfs] = [oldIpfs]"
    by (simp add: spec_skipped_def spec_survivor_def spec_forceDeploysFor_def force_defs)
  have ca: "spec_canceled [oldIpfs, forceIpfs]
       (getActiveDeploys forceWorld [stageEv JobStage_Skipped oldIpfs]) = [activeIpfs]"
    by (simp add: spec_canceled_def spec_survivor_def spec_forceDeploysFor_def
        getActiveDeploys_def JobsByMatcher_def force_defs)
  from processForceDeployJobs_override [OF wf wfA force ok, of "testManager 1 0"]
  obtain fd where fd: "distinct (map fst fd)" "map_of fd = spec_survivor [oldIpfs, forceIpfs]"
    "\<forall>h. processForceDeployJobs forceWorld [oldIpfs, forceIpfs] h
              = Ret (True, spec_override forceWorld [oldIpfs, forceIpfs] fd h)"
    "\<forall>h. \<not> paused (testManager 1 0)
          \<and> orderedJobs forceWorld (tickIngest forceWorld h) JobStage_Dequeued = [oldIpfs, forceIpfs]
            \<longrightarrow> processJobs forceWorld (testManager 1 0) h
              = Ret (spec_override forceWorld [oldIpfs, forceIpfs] fd
                       (tickIngest forceWorld h @ [EvLog ''processJobs: dequeued jobs'']))"
    by blast
  show ?thesis
    using fd(1,2) fd(3) [rule_format, of "[]"] fd(4) [rule_format, OF tick] sv sk ca by blast
qed

text \<open>
  Whatever the store answers, a dequeued list with a force deploy makes
  \<open>processForceDeployJobs\<close> return true, so that the anchor dispatch is not run in
  that tick.
\<close>

lemma skipForcedDeploys_returns:
  assumes "\<forall>js \<in> set jobs. Type js = JobType_Deploy \<longrightarrow> hasComponent js"
  shows "\<exists>b h'. skipForcedDeploys w fd jobs h = Ret (b, h')"
  using assms
proof (induction jobs arbitrary: h)
  case Nil then show ?case by (metis skipForcedDeploys.simps(1))
next
  case (Cons j jobs)
  hence IH: "\<And>h. \<exists>b h'. skipForcedDeploys w fd jobs h = Ret (b, h')" by simp
  show ?case
  proof (cases "Type j = JobType_Deploy")
    case False then show ?thesis using IH by simp
  next
    case True
    hence ms: "mustString (Params j JobParam_Component) = Ret (componentOf j)"
      using Cons.prems mustString_hasComponent by simp
    show ?thesis using True ms IH
      by (simp add: updateJobStage_def split: option.splits) blast
  qed
qed

lemma cancelActiveDeploys_returns:
  assumes "\<forall>js \<in> set jobs. hasComponent js"
  shows "\<exists>b h'. cancelActiveDeploys w fd jobs h = Ret (b, h')"
  using assms
proof (induction jobs arbitrary: h)
  case Nil then show ?case by (metis cancelActiveDeploys.simps(1))
next
  case (Cons j jobs)
  hence IH: "\<And>h. \<exists>b h'. cancelActiveDeploys w fd jobs h = Ret (b, h')" by simp
  have ms: "mustString (Params j JobParam_Component) = Ret (componentOf j)"
    using Cons.prems mustString_hasComponent by simp
  show ?case using ms IH
    by (simp add: updateJobStage_def split: option.splits) blast
qed

lemma processForceDeployJobs_returns_true:
  assumes wf: "\<forall>js \<in> set dequeuedJobs. Type js = JobType_Deploy \<longrightarrow> hasComponent js"
    and wfA: "\<forall>h'. \<forall>js \<in> set (getActiveDeploys w h'). hasComponent js"
    and force: "\<exists>js \<in> set dequeuedJobs. isForceDeploy js"
  shows "\<exists>h'. processForceDeployJobs w dequeuedJobs h = Ret (True, h')"
proof -
  from collectForceDeploys_survivor[OF wf] obtain fd where
    fd: "collectForceDeploys dequeuedJobs [] = Ret fd"
        "map_of fd = spec_survivor dequeuedJobs" by blast
  from force obtain j where j: "j \<in> set dequeuedJobs" "isForceDeploy j" by blast
  hence "spec_forceDeploysFor dequeuedJobs (componentOf j) \<noteq> []"
    by (auto simp: spec_forceDeploysFor_def filter_empty_conv)
  hence "spec_survivor dequeuedJobs (componentOf j) \<noteq> None"
    by (auto simp: spec_survivor_def split: list.splits)
  hence ne: "fd \<noteq> []" using fd(2) by (metis map_of.simps(1))
  obtain b h1 where s: "skipForcedDeploys w fd dequeuedJobs h = Ret (b, h1)"
    using skipForcedDeploys_returns[OF wf] by blast
  obtain c h2 where c: "cancelActiveDeploys w fd (getActiveDeploys w h1) h1 = Ret (c, h2)"
    using cancelActiveDeploys_returns[of "getActiveDeploys w h1"] wfA by blast
  show ?thesis using fd(1) ne s c
    by (cases b; cases c) (simp_all add: processForceDeployJobs_def)
qed

section \<open>Theorems: post-processing and the advancement task\<close>

lemma Split_nonempty: "Split s sep \<noteq> []"
  by (induction s) (auto split: list.splits)

lemma hd_Split: "hd (Split s sep) = takeWhile (\<lambda>c. c \<noteq> sep) s"
  by (induction s) (auto split: list.splits simp: Split_nonempty)

lemma index0_Split: "index0 (Split s sep) = Ret (takeWhile (\<lambda>c. c \<noteq> sep) s)"
  using hd_Split[of s sep] Split_nonempty[of s sep]
  by (cases "Split s sep") (auto simp: index0_def)

lemma NewJob_rollbackJob:
  "\<exists>new e. NewJob w (rollbackJob jobState shaTag) h = ((new, e), h @ [EvQueueJob new])
     \<and> Type new = JobType_Deploy \<and> Stage new = JobStage_Queued
     \<and> Params new = Params (rollbackJob jobState shaTag)"
  by (simp add: NewJob_def rollbackJob_def Let_def)

lemma rollbackJob_params:
  "Params (rollbackJob jobState shaTag) JobParam_Rollback = Some (VBool True)"
  "Params (rollbackJob jobState shaTag) JobParam_Force = Some (VBool True)"
  "Params (rollbackJob jobState shaTag) JobParam_ShaTag = Some (VString shaTag)"
  "Params (rollbackJob jobState shaTag) JobParam_Component = Params jobState JobParam_Component"
  by (simp_all add: rollbackJob_def param_defs)

lemma queuedNewJobs_simps:
  "queuedNewJobs [EvQueueJob js] = [js]"
  "queuedNewJobs [EvLog l] = []"
  "queuedNewJobs [EvQueueJob js, EvLog l] = [js]"
  by (simp_all add: queuedNewJobs_def)

text \<open>
  C6. Post-processing of a Deploy job that has become Failed. If the job carries
  \<open>rollback = true\<close>, nothing is done: no job is queued. Otherwise, if the component
  parameter is missing, or the deploy tags cannot be read, or there is no tag for the
  component, one line is logged and no job is queued. Otherwise exactly one job is
  handed to the queue: a Queued Deploy job for the same component with
  \<open>rollback = true\<close>, \<open>force = true\<close> and \<open>shaTag\<close> the part of the component's
  deploy tag before its first comma.
\<close>

theorem postProcessJob_rollback:
  assumes "Type jobState = JobType_Deploy" and "Stage jobState = JobStage_Failed"
  shows "(fst (assertBool (Params jobState JobParam_Rollback))
            \<longrightarrow> postProcessJob w m jobState h = Ret h)
     \<and> (\<not> fst (assertBool (Params jobState JobParam_Rollback)) \<longrightarrow>
          ((\<not> hasComponent jobState
              \<or> (\<exists>err. getDeployTags w h = Inl err)
              \<or> (\<exists>tags. getDeployTags w h = Inr tags \<and> tags (componentOf jobState) = None))
             \<longrightarrow> (\<exists>l. postProcessJob w m jobState h = Ret (h @ [EvLog l])))
        \<and> (\<forall>tags tag. hasComponent jobState \<and> getDeployTags w h = Inr tags
                \<and> tags (componentOf jobState) = Some tag
             \<longrightarrow> (\<exists>new evs. postProcessJob w m jobState h = Ret (h @ evs)
                    \<and> queuedNewJobs evs = [new]
                    \<and> Type new = JobType_Deploy \<and> Stage new = JobStage_Queued
                    \<and> Params new JobParam_Rollback = Some (VBool True)
                    \<and> Params new JobParam_Force = Some (VBool True)
                    \<and> Params new JobParam_ShaTag
                         = Some (VString (takeWhile (\<lambda>c. c \<noteq> CHR '','') tag))
                    \<and> Params new JobParam_Component = Params jobState JobParam_Component)))"
proof (intro conjI impI allI)
  assume "fst (assertBool (Params jobState JobParam_Rollback))"
  thus "postProcessJob w m jobState h = Ret h"
    using assms by (simp add: postProcessJob_def)
next
  assume nr: "\<not> fst (assertBool (Params jobState JobParam_Rollback))"
    and miss: "\<not> hasComponent jobState
              \<or> (\<exists>err. getDeployTags w h = Inl err)
              \<or> (\<exists>tags. getDeployTags w h = Inr tags \<and> tags (componentOf jobState) = None)"
  show "\<exists>l. postProcessJob w m jobState h = Ret (h @ [EvLog l])"
  proof (cases "hasComponent jobState")
    case False
    then obtain c where "assertString (Params jobState JobParam_Component) = (c, False)"
      by (metis hasComponent_def prod.collapse)
    thus ?thesis using assms nr by (simp add: postProcessJob_def)
  next
    case True
    hence as: "assertString (Params jobState JobParam_Component) = (componentOf jobState, True)"
      by (simp add: hasComponent_def componentOf_def prod_eq_iff)
    from miss True consider (err) err where "getDeployTags w h = Inl err"
      | (none) tags where "getDeployTags w h = Inr tags" "tags (componentOf jobState) = None"
      by blast
    thus ?thesis
    proof cases
      case err thus ?thesis using assms nr as by (simp add: postProcessJob_def)
    next
      case none thus ?thesis using assms nr as by (simp add: postProcessJob_def)
    qed
  qed
next
  fix tags tag
  assume nr: "\<not> fst (assertBool (Params jobState JobParam_Rollback))"
    and pres: "hasComponent jobState \<and> getDeployTags w h = Inr tags
                \<and> tags (componentOf jobState) = Some tag"
  let ?shaTag = "takeWhile (\<lambda>c. c \<noteq> CHR '','') tag"
  have as: "assertString (Params jobState JobParam_Component) = (componentOf jobState, True)"
    using pres by (simp add: hasComponent_def componentOf_def prod_eq_iff)
  from NewJob_rollbackJob[of w jobState ?shaTag h] obtain new e where
    nj: "NewJob w (rollbackJob jobState ?shaTag) h = ((new, e), h @ [EvQueueJob new])"
      "Type new = JobType_Deploy" "Stage new = JobStage_Queued"
      "Params new = Params (rollbackJob jobState ?shaTag)" by blast
  let ?evs = "case e of None \<Rightarrow> [EvQueueJob new]
     | Some err \<Rightarrow> [EvQueueJob new, EvLog ''postProcessJob: failed to queue rollback after failed deploy'']"
  have "postProcessJob w m jobState h = Ret (h @ ?evs)"
    using assms nr as pres nj(1) by (simp add: postProcessJob_def index0_Split split: option.splits)
  moreover have "queuedNewJobs ?evs = [new]"
    by (simp add: queuedNewJobs_simps split: option.splits)
  ultimately show "\<exists>new evs. postProcessJob w m jobState h = Ret (h @ evs)
                    \<and> queuedNewJobs evs = [new]
                    \<and> Type new = JobType_Deploy \<and> Stage new = JobStage_Queued
                    \<and> Params new JobParam_Rollback = Some (VBool True)
                    \<and> Params new JobParam_Force = Some (VBool True)
                    \<and> Params new JobParam_ShaTag
                         = Some (VString (takeWhile (\<lambda>c. c \<noteq> CHR '','') tag))
                    \<and> Params new JobParam_Component = Params jobState JobParam_Component"
    using nj(2,3,4) rollbackJob_params[of jobState ?shaTag] by (intro exI[of _ new] exI[of _ ?evs]) simp
qed

lemmas tag_defs = tagWorld_def testWorld_def testManager_def failedCeramic_def
  failedRollback_def failedBare_def mkJob_def assertBool_def assertString_def
  hasComponent_def componentOf_def param_defs

theorem postProcessJob_rollback_witness:
  "postProcessJob tagWorld (testManager 1 0) failedRollback [] = Ret []
   \<and> (\<exists>l. postProcessJob tagWorld (testManager 1 0) failedBare [] = Ret ([] @ [EvLog l]))
   \<and> (\<exists>new evs. postProcessJob tagWorld (testManager 1 0) failedCeramic [] = Ret ([] @ evs)
          \<and> queuedNewJobs evs = [new]
          \<and> Type new = JobType_Deploy \<and> Stage new = JobStage_Queued
          \<and> Params new JobParam_Rollback = Some (VBool True)
          \<and> Params new JobParam_Force = Some (VBool True)
          \<and> Params new JobParam_ShaTag = Some (VString ''sha-ceramic-xyz'')
          \<and> Params new JobParam_Component = Some (VString ''ceramic''))"
proof -
  have a: "Type failedRollback = JobType_Deploy" "Stage failedRollback = JobStage_Failed"
    "fst (assertBool (Params failedRollback JobParam_Rollback))"
    by (simp_all add: tag_defs)
  have b: "Type failedBare = JobType_Deploy" "Stage failedBare = JobStage_Failed"
    "\<not> fst (assertBool (Params failedBare JobParam_Rollback))" "\<not> hasComponent failedBare"
    by (simp_all add: tag_defs)
  have c: "Type failedCeramic = JobType_Deploy" "Stage failedCeramic = JobStage_Failed"
    "\<not> fst (assertBool (Params failedCeramic JobParam_Rollback))"
    "hasComponent failedCeramic \<and> getDeployTags tagWorld []
        = Inr [''ceramic'' \<mapsto> ''sha-ceramic-xyz,prod'']
      \<and> [''ceramic'' \<mapsto> ''sha-ceramic-xyz,prod''] (componentOf failedCeramic)
        = Some ''sha-ceramic-xyz,prod''"
    by (simp_all add: tag_defs)
  have tw: "takeWhile (\<lambda>c. c \<noteq> CHR '','') ''sha-ceramic-xyz,prod'' = ''sha-ceramic-xyz''"
    by simp
  have pc: "Params failedCeramic JobParam_Component = Some (VString ''ceramic'')"
    by (simp add: tag_defs)
  note A = postProcessJob_rollback [OF a(1,2), of tagWorld "testManager 1 0" "[]",
      THEN conjunct1, rule_format, OF a(3)]
  note B = postProcessJob_rollback [OF b(1,2), of tagWorld "testManager 1 0" "[]",
      THEN conjunct2, rule_format, OF b(3), THEN conjunct1, rule_format, OF disjI1, OF b(4)]
  note C = postProcessJob_rollback [OF c(1,2), of tagWorld "testManager 1 0" "[]",
      THEN conjunct2, rule_format, OF c(3), THEN conjunct2, rule_format, OF c(4)]
  show ?thesis using A B C unfolding tw pc by blast
qed

lemma recoverPanic_long:
  assumes "1024 \<le> length (debugStack w (h @ [EvPrint (''Panic while advancing job:  '' @ r),
                    EvPrint ''Stack Trace:'', EvPrintStack]))"
  shows "\<exists>evs stack. recoverPanic w jobState r h =
           Ret (h @ [EvPrint (''Panic while advancing job:  '' @ r), EvPrint ''Stack Trace:'',
                     EvPrintStack,
                     EvUpdateJobStage jobState JobStage_Failed (Some (''panic: '' @ stack))] @ evs)
         \<and> length stack = 1024 \<and> (evs = [] \<or> (\<exists>l. evs = [EvLog l]))"
  using assms
  by (auto simp: recoverPanic_def Let_def updateJobStage_def split: option.splits)

lemma recoverPanic_short:
  assumes "length (debugStack w (h @ [EvPrint (''Panic while advancing job:  '' @ r),
                    EvPrint ''Stack Trace:'', EvPrintStack])) < 1024"
  shows "recoverPanic w jobState r h = Panic ''runtime error: slice bounds out of range [:1024]''"
  using assms by (simp add: recoverPanic_def Let_def)

text \<open>
  C8. An advancement task whose state machine panics while the captured stack trace is
  shorter than 1024 bytes: the deferred function panics in its turn on the slice
  expression \<open>[:1024]\<close>, so the panic leaves the task and the job is not moved to
  Failed.
\<close>

theorem advanceJobTask_short_stack_panics:
  "advanceJobTask panicWorld (testManager 1 0) anchorB []
     = Panic ''runtime error: slice bounds out of range [:1024]''
   \<and> length shortStack < 1024"
  by (simp add: advanceJobTask_def prepareJobSm_def recoverPanic_def panicWorld_def
      shortStack_def test_defs Let_def)

section \<open>Theorems: the deploy job\<close>

lemma notifyAndStore_notified:
  assumes "Stage state = JobStage_Skipped \<or> Stage state = JobStage_Started
             \<or> Stage state = JobStage_Failed \<or> Stage state = JobStage_Completed"
  shows "notifyAndStore w state h =
     (Ret (state, db_AdvanceJob w (h @ [CallNotifyJob state]) state),
      h @ [CallNotifyJob state, CallAdvanceJob state])"
  using assms by (auto simp: notifyAndStore_def Let_def)

lemma assertLayout_True:
  "assertLayout p = (layout, True) \<Longrightarrow> p = Some (VLayout layout)"
  by (auto simp: assertLayout_def split: option.splits Value.splits)

lemma failJob_not_nil:
  assumes "ParamsMap state = Some m"
  shows "\<exists>state'. failJob w state err logLine h =
      (Ret (state', db_AdvanceJob w (h @ [CallLog logLine, CallNotifyJob state']) state'),
       h @ [CallLog logLine, CallNotifyJob state', CallAdvanceJob state'])
     \<and> Stage state' = JobStage_Failed
     \<and> Params state' = m(JobParam_Error \<mapsto> VString err)"
  using assms
  by (simp add: failJob_def failWith_def setParam_def notifyAndStore_notified)

lemma failJob_calls:
  "\<exists>r evs. failJob w state err logLine h = (r, h @ evs)
     \<and> (\<forall>state' e. r = Ret (state', e) \<longrightarrow> Stage state' = JobStage_Failed)
     \<and> filter isUpdateEnv evs = [] \<and> filter isCheckEnv evs = []
     \<and> filter isGenerateEnvLayout evs = []"
  by (cases "ParamsMap state")
     (auto simp: failJob_def failWith_def setParam_def notifyAndStore_def Let_def)

lemma checkEnv_calls:
  "\<exists>r evs. checkEnv w d h = (r, h @ evs)
     \<and> filter isUpdateEnv evs = [] \<and> filter isStoreCall evs = []
     \<and> (dj_component d \<noteq> DeployComponent_Ipfs \<longrightarrow>
           filter isGenerateEnvLayout evs = [] \<and> length (filter isCheckEnv evs) \<le> 1)"
  by (auto simp: checkEnv_def Let_def split: prod.splits sum.splits bool.splits)

lemma checkEnv_True:
  assumes "fst (checkEnv w d h) = Inr True"
  shows "\<exists>layout. assertLayout (Params (dj_state d) JobParam_Layout) = (layout, True)
      \<and> d_CheckEnv w h layout = Inr True
      \<and> (dj_component d = DeployComponent_Ipfs \<longrightarrow>
           (\<exists>ceramicLayout.
              d_GenerateEnvLayout w (h @ [CallCheckEnv layout]) DeployComponent_Ceramic
                = Inr ceramicLayout
            \<and> d_CheckEnv w (h @ [CallCheckEnv layout,
                   CallGenerateEnvLayout DeployComponent_Ceramic]) ceramicLayout = Inr True))"
  using assms
  by (auto simp: checkEnv_def Let_def split: prod.splits sum.splits bool.splits if_splits)

text \<open>What \<open>checkEnv\<close> returns, from what the probes answer.\<close>

lemma checkEnv_probes_False:
  assumes "assertLayout (Params (dj_state d) JobParam_Layout) = (layout, True)"
    and "d_CheckEnv w h layout = Inr False
         \<or> (dj_component d = DeployComponent_Ipfs \<and> d_CheckEnv w h layout = Inr True
             \<and> (\<exists>ceramicLayout.
                   d_GenerateEnvLayout w (h @ [CallCheckEnv layout]) DeployComponent_Ceramic
                     = Inr ceramicLayout
                 \<and> d_CheckEnv w (h @ [CallCheckEnv layout,
                        CallGenerateEnvLayout DeployComponent_Ceramic]) ceramicLayout
                     = Inr False))"
  shows "fst (checkEnv w d h) = Inr False"
  using assms by (auto simp: checkEnv_def Let_def)

lemma checkEnv_probes_True:
  assumes "assertLayout (Params (dj_state d) JobParam_Layout) = (layout, True)"
    and "d_CheckEnv w h layout = Inr True"
    and "dj_component d = DeployComponent_Ipfs \<longrightarrow>
           (\<exists>ceramicLayout.
              d_GenerateEnvLayout w (h @ [CallCheckEnv layout]) DeployComponent_Ceramic
                = Inr ceramicLayout
            \<and> d_CheckEnv w (h @ [CallCheckEnv layout,
                   CallGenerateEnvLayout DeployComponent_Ceramic]) ceramicLayout = Inr True)"
  shows "fst (checkEnv w d h) = Inr True"
  using assms by (auto simp: checkEnv_def Let_def)

text \<open>
  C7. A Deploy job advanced from Started. It becomes Completed only if \<open>CheckEnv\<close> of
  the layout stored in its parameters returned true and, when the component is Ipfs,
  \<open>GenerateEnvLayout(Ceramic)\<close> succeeded and \<open>CheckEnv\<close> of that fresh layout
  returned true as well. For another component no layout is generated and \<open>CheckEnv\<close>
  is called at most once. When the job has not timed out and a probe answers false
  without error (the probe of its own layout, or for Ipfs the probe of the Ceramic
  layout after its own succeeded), the job is returned as it was, in Started, and
  neither the notifier nor the database is called. When the job has not timed out and
  the probes answer true, the job becomes Completed, the deploy hash is updated, and the
  Completed job is notified and written to the database.
\<close>

theorem deployJob_AdvanceJob_started:
  assumes s: "Stage (dj_state d) = JobStage_Started"
  shows "\<exists>r evs. deployJob_AdvanceJob w d h = (r, h @ evs)
     \<and> (\<forall>state' e. r = Ret (state', e) \<and> Stage state' = JobStage_Completed \<longrightarrow>
          (\<exists>layout. assertLayout (Params (dj_state d) JobParam_Layout) = (layout, True)
             \<and> d_CheckEnv w (h @ [CallNow]) layout = Inr True
             \<and> (dj_component d = DeployComponent_Ipfs \<longrightarrow>
                 (\<exists>ceramicLayout.
                     d_GenerateEnvLayout w (h @ [CallNow, CallCheckEnv layout])
                        DeployComponent_Ceramic = Inr ceramicLayout
                   \<and> d_CheckEnv w (h @ [CallNow, CallCheckEnv layout,
                          CallGenerateEnvLayout DeployComponent_Ceramic]) ceramicLayout
                        = Inr True))))
     \<and> (dj_component d \<noteq> DeployComponent_Ipfs \<longrightarrow>
           filter isGenerateEnvLayout evs = [] \<and> length (filter isCheckEnv evs) \<le> 1)
     \<and> (\<not> IsTimedOut (time_Now w h) (dj_state d) DefaultFailureTime \<longrightarrow>
         (\<forall>layout. assertLayout (Params (dj_state d) JobParam_Layout) = (layout, True) \<longrightarrow>
            ((d_CheckEnv w (h @ [CallNow]) layout = Inr False
               \<or> (dj_component d = DeployComponent_Ipfs
                   \<and> d_CheckEnv w (h @ [CallNow]) layout = Inr True
                   \<and> (\<exists>ceramicLayout.
                         d_GenerateEnvLayout w (h @ [CallNow, CallCheckEnv layout])
                            DeployComponent_Ceramic = Inr ceramicLayout
                       \<and> d_CheckEnv w (h @ [CallNow, CallCheckEnv layout,
                              CallGenerateEnvLayout DeployComponent_Ceramic]) ceramicLayout
                            = Inr False)))
              \<longrightarrow> r = Ret (dj_state d, None) \<and> filter isStoreCall evs = [])
          \<and> ((d_CheckEnv w (h @ [CallNow]) layout = Inr True
               \<and> (dj_component d = DeployComponent_Ipfs \<longrightarrow>
                   (\<exists>ceramicLayout.
                       d_GenerateEnvLayout w (h @ [CallNow, CallCheckEnv layout])
                          DeployComponent_Ceramic = Inr ceramicLayout
                     \<and> d_CheckEnv w (h @ [CallNow, CallCheckEnv layout,
                            CallGenerateEnvLayout DeployComponent_Ceramic]) ceramicLayout
                          = Inr True)))
              \<longrightarrow> (\<exists>pre.
                     r = Ret ((dj_state d)\<lparr>Stage := JobStage_Completed\<rparr>,
                              db_AdvanceJob w
                                (h @ pre @ [CallNotifyJob ((dj_state d)\<lparr>Stage := JobStage_Completed\<rparr>)])
                                ((dj_state d)\<lparr>Stage := JobStage_Completed\<rparr>))
                   \<and> evs = pre @ [CallNotifyJob ((dj_state d)\<lparr>Stage := JobStage_Completed\<rparr>),
                                   CallAdvanceJob ((dj_state d)\<lparr>Stage := JobStage_Completed\<rparr>)]
                   \<and> CallUpdateDeployHash (dj_component d) (dj_sha d) \<in> set pre))))"
proof (cases "IsTimedOut (time_Now w h) (dj_state d) DefaultFailureTime")
  case True
  from failJob_calls[of w "dj_state d" Error_Timeout "''deployJob: job run timed out''" "h @ [CallNow]"]
  obtain r evs where f: "failJob w (dj_state d) Error_Timeout ''deployJob: job run timed out''
        (h @ [CallNow]) = (r, (h @ [CallNow]) @ evs)"
    "\<forall>state' e. r = Ret (state', e) \<longrightarrow> Stage state' = JobStage_Failed"
    "filter isCheckEnv evs = []" "filter isGenerateEnvLayout evs = []"
    by (elim exE conjE) (rule that)
  have adv: "deployJob_AdvanceJob w d h = (r, h @ ([CallNow] @ evs))"
    using s True f(1) by (simp add: deployJob_AdvanceJob_def Let_def)
  have nc: "\<And>state' e. r = Ret (state', e) \<Longrightarrow> Stage state' = JobStage_Completed \<Longrightarrow> False"
    using f(2) by auto
  show ?thesis
    apply (intro exI[of _ r] exI[of _ "[CallNow] @ evs"] conjI)
    subgoal using adv by simp
    subgoal using nc by blast
    subgoal using f(3,4) by simp
    subgoal using True by simp
    done
next
  case False
  let ?stay = "\<lambda>layout. d_CheckEnv w (h @ [CallNow]) layout = Inr False
               \<or> (dj_component d = DeployComponent_Ipfs
                   \<and> d_CheckEnv w (h @ [CallNow]) layout = Inr True
                   \<and> (\<exists>ceramicLayout.
                         d_GenerateEnvLayout w (h @ [CallNow, CallCheckEnv layout])
                            DeployComponent_Ceramic = Inr ceramicLayout
                       \<and> d_CheckEnv w (h @ [CallNow, CallCheckEnv layout,
                              CallGenerateEnvLayout DeployComponent_Ceramic]) ceramicLayout
                            = Inr False))"
  let ?compl = "\<lambda>layout. d_CheckEnv w (h @ [CallNow]) layout = Inr True
               \<and> (dj_component d = DeployComponent_Ipfs \<longrightarrow>
                   (\<exists>ceramicLayout.
                       d_GenerateEnvLayout w (h @ [CallNow, CallCheckEnv layout])
                          DeployComponent_Ceramic = Inr ceramicLayout
                     \<and> d_CheckEnv w (h @ [CallNow, CallCheckEnv layout,
                            CallGenerateEnvLayout DeployComponent_Ceramic]) ceramicLayout
                          = Inr True))"
  let ?lay = "\<lambda>layout. assertLayout (Params (dj_state d) JobParam_Layout) = (layout, True)"
  obtain cr cevs where c: "checkEnv w d (h @ [CallNow]) = (cr, (h @ [CallNow]) @ cevs)"
    "filter isStoreCall cevs = []"
    "dj_component d \<noteq> DeployComponent_Ipfs \<longrightarrow>
           filter isGenerateEnvLayout cevs = [] \<and> length (filter isCheckEnv cevs) \<le> 1"
    using checkEnv_calls[of w d "h @ [CallNow]"] by (elim exE conjE) (rule that)
  have fstc: "fst (checkEnv w d (h @ [CallNow])) = cr" using c(1) by simp
  have stayD: "\<And>layout. ?lay layout \<Longrightarrow> ?stay layout \<Longrightarrow> cr = Inr False"
    using checkEnv_probes_False[of d _ w "h @ [CallNow]"] fstc by simp
  have complD: "\<And>layout. ?lay layout \<Longrightarrow> ?compl layout \<Longrightarrow> cr = Inr True"
    using checkEnv_probes_True[of d _ w "h @ [CallNow]"] fstc by simp
  let ?h1 = "(h @ [CallNow]) @ cevs"
  show ?thesis
  proof (cases cr)
    case (Inl err)
    let ?l = "''deployJob: error checking services running status''"
    from failJob_calls[of w "dj_state d" err ?l ?h1]
    obtain r evs where f: "failJob w (dj_state d) err ?l ?h1 = (r, ?h1 @ evs)"
      "\<forall>state' e. r = Ret (state', e) \<longrightarrow> Stage state' = JobStage_Failed"
      "filter isCheckEnv evs = []" "filter isGenerateEnvLayout evs = []"
      by (elim exE conjE) (rule that)
    have adv: "deployJob_AdvanceJob w d h = (r, h @ ([CallNow] @ cevs @ evs))"
      using s False c(1) Inl f(1) by (simp add: deployJob_AdvanceJob_def Let_def)
    have nc: "\<And>state' e. r = Ret (state', e) \<Longrightarrow> Stage state' = JobStage_Completed \<Longrightarrow> False"
      using f(2) by auto
    have stayF: "\<And>layout. ?lay layout \<Longrightarrow> ?stay layout \<Longrightarrow> False"
      using stayD Inl by simp
    have complF: "\<And>layout. ?lay layout \<Longrightarrow> ?compl layout \<Longrightarrow> False"
      using complD Inl by simp
    show ?thesis
      apply (intro exI[of _ r] exI[of _ "[CallNow] @ cevs @ evs"] conjI)
      subgoal using adv by simp
      subgoal using nc by blast
      subgoal using c(3) f(3,4) by simp
      subgoal using stayF complF by blast
      done
  next
    case (Inr b)
    show ?thesis
    proof (cases b)
      case True
      have ct: "fst (checkEnv w d (h @ [CallNow])) = Inr True" using c(1) Inr True by simp
      let ?st = "(dj_state d)\<lparr>Stage := JobStage_Completed\<rparr>"
      let ?u = "CallUpdateDeployHash (dj_component d) (dj_sha d)"
      let ?l = "CallLog ''deployJob: failed to update deploy hash''"
      let ?mid = "case db_UpdateDeployHash w ?h1 (dj_component d) (dj_sha d) of
                    Some err \<Rightarrow> [?u, ?l] | None \<Rightarrow> [?u]"
      let ?pre = "[CallNow] @ cevs @ ?mid"
      let ?r = "Ret (?st, db_AdvanceJob w (h @ ?pre @ [CallNotifyJob ?st]) ?st)"
      have n: "notifyAndStore w ?st (?h1 @ ?mid)
          = (?r, (?h1 @ ?mid) @ [CallNotifyJob ?st, CallAdvanceJob ?st])"
        by (simp add: notifyAndStore_notified)
      have adv: "deployJob_AdvanceJob w d h
          = (?r, h @ (?pre @ [CallNotifyJob ?st, CallAdvanceJob ?st]))"
        using s False c(1) Inr True n
        by (simp add: deployJob_AdvanceJob_def Let_def split: option.splits)
      have mid: "filter isCheckEnv ?mid = []" "filter isGenerateEnvLayout ?mid = []"
        "?u \<in> set ?pre"
        by (simp_all split: option.splits)
      have a: "\<exists>layout. ?lay layout
             \<and> d_CheckEnv w (h @ [CallNow]) layout = Inr True
             \<and> (dj_component d = DeployComponent_Ipfs \<longrightarrow>
                 (\<exists>ceramicLayout.
                     d_GenerateEnvLayout w (h @ [CallNow, CallCheckEnv layout])
                        DeployComponent_Ceramic = Inr ceramicLayout
                   \<and> d_CheckEnv w (h @ [CallNow, CallCheckEnv layout,
                          CallGenerateEnvLayout DeployComponent_Ceramic]) ceramicLayout
                        = Inr True))"
        using checkEnv_True[OF ct] by simp
      have b: "dj_component d \<noteq> DeployComponent_Ipfs \<longrightarrow>
           filter isGenerateEnvLayout (?pre @ [CallNotifyJob ?st, CallAdvanceJob ?st]) = []
           \<and> length (filter isCheckEnv (?pre @ [CallNotifyJob ?st, CallAdvanceJob ?st])) \<le> 1"
        using c(3) mid(1,2) by simp
      have stayF: "\<And>layout. ?lay layout \<Longrightarrow> ?stay layout \<Longrightarrow> False"
        using stayD Inr True by simp
      have ex: "\<exists>pre. ?r = Ret (?st, db_AdvanceJob w (h @ pre @ [CallNotifyJob ?st]) ?st)
           \<and> ?pre @ [CallNotifyJob ?st, CallAdvanceJob ?st]
               = pre @ [CallNotifyJob ?st, CallAdvanceJob ?st]
           \<and> ?u \<in> set pre"
        using mid(3) by (intro exI[of _ ?pre]) simp
      show ?thesis
        apply (intro exI[of _ ?r] exI[of _ "?pre @ [CallNotifyJob ?st, CallAdvanceJob ?st]"] conjI)
        subgoal using adv by simp
        subgoal using a by blast
        subgoal using b by blast
        subgoal using stayF ex by blast
        done
    next
      case f: False
      have adv: "deployJob_AdvanceJob w d h = (Ret (dj_state d, None), h @ ([CallNow] @ cevs))"
        using s False c(1) Inr f by (simp add: deployJob_AdvanceJob_def Let_def)
      have nostore: "filter isStoreCall ([CallNow] @ cevs) = []" using c(2) by simp
      have complF: "\<And>layout. ?lay layout \<Longrightarrow> ?compl layout \<Longrightarrow> False"
        using complD Inr f by simp
      have nc: "\<And>state' e. Ret (dj_state d, None) = Ret (state', e)
           \<Longrightarrow> Stage state' = JobStage_Completed \<Longrightarrow> False"
        using s by simp
      show ?thesis
        apply (intro exI[of _ "Ret (dj_state d, None)"] exI[of _ "[CallNow] @ cevs"] conjI)
        subgoal using adv by simp
        subgoal using nc by blast
        subgoal using c(3) by simp
        subgoal using nostore complF by blast
        done
    qed
  qed
qed

lemmas jobs_defs = jobsWorld_def ceramicDownWorld_def deployOf_def sameShaDeploy_def
  newShaDeploy_def ipfsStarted_def ceramicStarted_def mkJob_def assertLayout_def
  lookupString_def param_defs

lemmas clock_defs = IsTimedOut_def After_def Add_def DefaultFailureTime_def Minute_def
  Second_def

theorem deployJob_AdvanceJob_started_witness:
  "(\<exists>pre. deployJob_AdvanceJob (jobsWorld True) ipfsStarted []
        = (Ret ((dj_state ipfsStarted)\<lparr>Stage := JobStage_Completed\<rparr>, None),
           [] @ pre @ [CallNotifyJob ((dj_state ipfsStarted)\<lparr>Stage := JobStage_Completed\<rparr>),
                       CallAdvanceJob ((dj_state ipfsStarted)\<lparr>Stage := JobStage_Completed\<rparr>)])
        \<and> CallUpdateDeployHash ''ipfs'' ''def'' \<in> set pre)
   \<and> (\<exists>evs. deployJob_AdvanceJob (jobsWorld False) ipfsStarted []
                = (Ret (dj_state ipfsStarted, None), [] @ evs)
        \<and> filter isStoreCall evs = [])
   \<and> (\<exists>evs. deployJob_AdvanceJob ceramicDownWorld ipfsStarted []
                = (Ret (dj_state ipfsStarted, None), [] @ evs)
        \<and> filter isStoreCall evs = [])
   \<and> (\<exists>evs. deployJob_AdvanceJob (jobsWorld False) ceramicStarted []
                = (Ret (dj_state ceramicStarted, None), [] @ evs)
        \<and> filter isStoreCall evs = []
        \<and> filter isGenerateEnvLayout evs = [] \<and> length (filter isCheckEnv evs) \<le> 1)"
proof -
  have s1: "Stage (dj_state ipfsStarted) = JobStage_Started"
    and s2: "Stage (dj_state ceramicStarted) = JobStage_Started"
    by (simp_all add: jobs_defs)
  have nt: "\<And>b. \<not> IsTimedOut (time_Now (jobsWorld b) []) (dj_state ipfsStarted) DefaultFailureTime"
    "\<not> IsTimedOut (time_Now ceramicDownWorld []) (dj_state ipfsStarted) DefaultFailureTime"
    "\<not> IsTimedOut (time_Now (jobsWorld False) []) (dj_state ceramicStarted) DefaultFailureTime"
    by (simp_all add: clock_defs jobs_defs)
  have lay: "assertLayout (Params (dj_state ipfsStarted) JobParam_Layout) = (ipfsDevLayout, True)"
    "assertLayout (Params (dj_state ceramicStarted) JobParam_Layout) = (ceramicDevLayout, True)"
    by (simp_all add: jobs_defs)
  have comp: "dj_component ipfsStarted = DeployComponent_Ipfs"
    "dj_component ceramicStarted \<noteq> DeployComponent_Ipfs"
    "dj_component ipfsStarted = ''ipfs''" "dj_sha ipfsStarted = ''def''"
    by (simp_all add: jobs_defs DeployComponent_Ipfs_def)
  have store: "\<And>h js. db_AdvanceJob (jobsWorld True) h js = None"
    by (simp add: jobs_defs)
  have up: "d_CheckEnv (jobsWorld True) ([] @ [CallNow]) ipfsDevLayout = Inr True"
    "d_GenerateEnvLayout (jobsWorld True) ([] @ [CallNow, CallCheckEnv ipfsDevLayout])
        DeployComponent_Ceramic = Inr ceramicDevLayout"
    "d_CheckEnv (jobsWorld True) ([] @ [CallNow, CallCheckEnv ipfsDevLayout,
        CallGenerateEnvLayout DeployComponent_Ceramic]) ceramicDevLayout = Inr True"
    by (simp_all add: jobs_defs)
  have down: "d_CheckEnv (jobsWorld False) ([] @ [CallNow]) ipfsDevLayout = Inr False"
    "d_CheckEnv (jobsWorld False) ([] @ [CallNow]) ceramicDevLayout = Inr False"
    by (simp_all add: jobs_defs)
  have half: "d_CheckEnv ceramicDownWorld ([] @ [CallNow]) ipfsDevLayout = Inr True"
    "d_GenerateEnvLayout ceramicDownWorld ([] @ [CallNow, CallCheckEnv ipfsDevLayout])
        DeployComponent_Ceramic = Inr ceramicDevLayout"
    "d_CheckEnv ceramicDownWorld ([] @ [CallNow, CallCheckEnv ipfsDevLayout,
        CallGenerateEnvLayout DeployComponent_Ceramic]) ceramicDevLayout = Inr False"
    by (simp_all add: jobs_defs)
  have c1: "d_CheckEnv (jobsWorld True) ([] @ [CallNow]) ipfsDevLayout = Inr True
      \<and> (dj_component ipfsStarted = DeployComponent_Ipfs \<longrightarrow>
           (\<exists>ceramicLayout.
               d_GenerateEnvLayout (jobsWorld True) ([] @ [CallNow, CallCheckEnv ipfsDevLayout])
                  DeployComponent_Ceramic = Inr ceramicLayout
             \<and> d_CheckEnv (jobsWorld True) ([] @ [CallNow, CallCheckEnv ipfsDevLayout,
                    CallGenerateEnvLayout DeployComponent_Ceramic]) ceramicLayout
                  = Inr True))"
    using up by blast
  have c2: "d_CheckEnv (jobsWorld False) ([] @ [CallNow]) ipfsDevLayout = Inr False
      \<or> (dj_component ipfsStarted = DeployComponent_Ipfs
           \<and> d_CheckEnv (jobsWorld False) ([] @ [CallNow]) ipfsDevLayout = Inr True
           \<and> (\<exists>ceramicLayout.
                 d_GenerateEnvLayout (jobsWorld False) ([] @ [CallNow, CallCheckEnv ipfsDevLayout])
                    DeployComponent_Ceramic = Inr ceramicLayout
               \<and> d_CheckEnv (jobsWorld False) ([] @ [CallNow, CallCheckEnv ipfsDevLayout,
                      CallGenerateEnvLayout DeployComponent_Ceramic]) ceramicLayout
                    = Inr False))"
    using down(1) by blast
  have c3: "d_CheckEnv ceramicDownWorld ([] @ [CallNow]) ipfsDevLayout = Inr False
      \<or> (dj_component ipfsStarted = DeployComponent_Ipfs
           \<and> d_CheckEnv ceramicDownWorld ([] @ [CallNow]) ipfsDevLayout = Inr True
           \<and> (\<exists>ceramicLayout.
                 d_GenerateEnvLayout ceramicDownWorld ([] @ [CallNow, CallCheckEnv ipfsDevLayout])
                    DeployComponent_Ceramic = Inr ceramicLayout
               \<and> d_CheckEnv ceramicDownWorld ([] @ [CallNow, CallCheckEnv ipfsDevLayout,
                      CallGenerateEnvLayout DeployComponent_Ceramic]) ceramicLayout
                    = Inr False))"
    using half comp(1) by blast
  have c4: "d_CheckEnv (jobsWorld False) ([] @ [CallNow]) ceramicDevLayout = Inr False
      \<or> (dj_component ceramicStarted = DeployComponent_Ipfs
           \<and> d_CheckEnv (jobsWorld False) ([] @ [CallNow]) ceramicDevLayout = Inr True
           \<and> (\<exists>ceramicLayout.
                 d_GenerateEnvLayout (jobsWorld False) ([] @ [CallNow, CallCheckEnv ceramicDevLayout])
                    DeployComponent_Ceramic = Inr ceramicLayout
               \<and> d_CheckEnv (jobsWorld False) ([] @ [CallNow, CallCheckEnv ceramicDevLayout,
                      CallGenerateEnvLayout DeployComponent_Ceramic]) ceramicLayout
                    = Inr False))"
    using down(2) by blast
  have g1: "\<exists>pre. deployJob_AdvanceJob (jobsWorld True) ipfsStarted []
        = (Ret ((dj_state ipfsStarted)\<lparr>Stage := JobStage_Completed\<rparr>, None),
           [] @ pre @ [CallNotifyJob ((dj_state ipfsStarted)\<lparr>Stage := JobStage_Completed\<rparr>),
                       CallAdvanceJob ((dj_state ipfsStarted)\<lparr>Stage := JobStage_Completed\<rparr>)])
        \<and> CallUpdateDeployHash ''ipfs'' ''def'' \<in> set pre"
    using deployJob_AdvanceJob_started [OF s1, of "jobsWorld True" "[]"]
    apply (elim exE conjE)
    subgoal premises p for r evs
      using p(1) p(4) [rule_format, OF nt(1) lay(1), THEN conjunct2, rule_format, OF c1]
      by (auto simp: store comp(3,4))
    done
  have g2: "\<exists>evs. deployJob_AdvanceJob (jobsWorld False) ipfsStarted []
                = (Ret (dj_state ipfsStarted, None), [] @ evs)
        \<and> filter isStoreCall evs = []"
    using deployJob_AdvanceJob_started [OF s1, of "jobsWorld False" "[]"]
    apply (elim exE conjE)
    subgoal premises p for r evs
      using p(1) p(4) [rule_format, OF nt(1) lay(1), THEN conjunct1, rule_format, OF c2]
      by auto
    done
  have g3: "\<exists>evs. deployJob_AdvanceJob ceramicDownWorld ipfsStarted []
                = (Ret (dj_state ipfsStarted, None), [] @ evs)
        \<and> filter isStoreCall evs = []"
    using deployJob_AdvanceJob_started [OF s1, of ceramicDownWorld "[]"]
    apply (elim exE conjE)
    subgoal premises p for r evs
      using p(1) p(4) [rule_format, OF nt(2) lay(1), THEN conjunct1, rule_format, OF c3]
      by auto
    done
  have g4: "\<exists>evs. deployJob_AdvanceJob (jobsWorld False) ceramicStarted []
                = (Ret (dj_state ceramicStarted, None), [] @ evs)
        \<and> filter isStoreCall evs = []
        \<and> filter isGenerateEnvLayout evs = [] \<and> length (filter isCheckEnv evs) \<le> 1"
    using deployJob_AdvanceJob_started [OF s2, of "jobsWorld False" "[]"]
    apply (elim exE conjE)
    subgoal premises p for r evs
      using p(1) p(3) [rule_format, OF comp(2)]
        p(4) [rule_format, OF nt(3) lay(2), THEN conjunct1, rule_format, OF c4]
      by auto
    done
  show ?thesis using g1 g2 g3 g4 by blast
qed

text \<open>
  C4. A Deploy job advanced from Queued, the deploy hashes having been read. If the job
  is not manual and its commit hash is the component's entry of the deploy hashes, the
  job with stage Skipped is notified and written to the database by \<open>db.AdvanceJob\<close>,
  whose error is the error of the call, and \<open>UpdateEnv\<close> is not called. Otherwise, the
  layout being in the parameters, \<open>UpdateEnv(layout, sha)\<close> is called exactly once and
  the resulting job is notified and written to the database. When \<open>UpdateEnv\<close>
  succeeds that job is the given one with stage Started and \<open>start\<close> set to the clock
  in milliseconds, and \<open>UpdateBuildHash(component, sha)\<close> has been called before the
  write, whose result does not change the stage. When \<open>UpdateEnv\<close> fails the job
  written is Failed with the error recorded.
\<close>

theorem deployJob_AdvanceJob_queued:
  assumes q: "Stage (dj_state d) = JobStage_Queued"
    and hashes: "db_GetDeployHashes w h = Inr deployHashes"
  shows
   "(\<not> dj_manual d \<and> dj_sha d = lookupString deployHashes (dj_component d) \<longrightarrow>
       (\<exists>pre. deployJob_AdvanceJob w d h
                 = (Ret ((dj_state d)\<lparr>Stage := JobStage_Skipped\<rparr>,
                         db_AdvanceJob w
                           (h @ pre @ [CallNotifyJob ((dj_state d)\<lparr>Stage := JobStage_Skipped\<rparr>)])
                           ((dj_state d)\<lparr>Stage := JobStage_Skipped\<rparr>)),
                    h @ pre @ [CallNotifyJob ((dj_state d)\<lparr>Stage := JobStage_Skipped\<rparr>),
                               CallAdvanceJob ((dj_state d)\<lparr>Stage := JobStage_Skipped\<rparr>)])
              \<and> filter isUpdateEnv pre = []))
    \<and> (\<not> (\<not> dj_manual d \<and> dj_sha d = lookupString deployHashes (dj_component d)) \<longrightarrow>
       (\<forall>layout. assertLayout (Params (dj_state d) JobParam_Layout) = (layout, True) \<longrightarrow>
          (\<exists>state' pre. deployJob_AdvanceJob w d h
                 = (Ret (state', db_AdvanceJob w (h @ pre @ [CallNotifyJob state']) state'),
                    h @ pre @ [CallNotifyJob state', CallAdvanceJob state'])
              \<and> filter isUpdateEnv pre = [CallUpdateEnv layout (dj_sha d)]
              \<and> (d_UpdateEnv w (h @ [CallGetDeployHashes]) layout (dj_sha d) = None \<longrightarrow>
                   Stage state' = JobStage_Started
                 \<and> Params state' JobParam_Start
                     = Some (VInt (UnixMilli (time_Now w
                         (h @ [CallGetDeployHashes, CallUpdateEnv layout (dj_sha d)]))))
                 \<and> state' = (dj_state d)\<lparr>Stage := JobStage_Started,
                      ParamsMap := Some ((Params (dj_state d))(JobParam_Start \<mapsto>
                        VInt (UnixMilli (time_Now w
                          (h @ [CallGetDeployHashes, CallUpdateEnv layout (dj_sha d)])))))\<rparr>
                 \<and> CallUpdateBuildHash (dj_component d) (dj_sha d) \<in> set pre)
              \<and> (\<forall>err. d_UpdateEnv w (h @ [CallGetDeployHashes]) layout (dj_sha d) = Some err
                   \<longrightarrow> Stage state' = JobStage_Failed
                     \<and> Params state' = (Params (dj_state d))(JobParam_Error \<mapsto> VString err)))))"
proof (intro conjI impI allI)
  assume same: "\<not> dj_manual d \<and> dj_sha d = lookupString deployHashes (dj_component d)"
  let ?st = "(dj_state d)\<lparr>Stage := JobStage_Skipped\<rparr>"
  let ?pre = "[CallGetDeployHashes, CallLog ''deployJob: commit hash same as deployed hash'']"
  have n: "notifyAndStore w ?st (h @ ?pre)
      = (Ret (?st, db_AdvanceJob w ((h @ ?pre) @ [CallNotifyJob ?st]) ?st),
         (h @ ?pre) @ [CallNotifyJob ?st, CallAdvanceJob ?st])"
    by (simp add: notifyAndStore_notified)
  have "deployJob_AdvanceJob w d h
      = (Ret (?st, db_AdvanceJob w (h @ ?pre @ [CallNotifyJob ?st]) ?st),
         h @ ?pre @ [CallNotifyJob ?st, CallAdvanceJob ?st])"
    using q hashes same n by (simp add: deployJob_AdvanceJob_def Let_def)
  thus "\<exists>pre. deployJob_AdvanceJob w d h
                 = (Ret (?st, db_AdvanceJob w (h @ pre @ [CallNotifyJob ?st]) ?st),
                    h @ pre @ [CallNotifyJob ?st, CallAdvanceJob ?st])
              \<and> filter isUpdateEnv pre = []"
    by (intro exI[of _ ?pre]) simp
next
  fix layout
  assume diff: "\<not> (\<not> dj_manual d \<and> dj_sha d = lookupString deployHashes (dj_component d))"
    and lay: "assertLayout (Params (dj_state d) JobParam_Layout) = (layout, True)"
  let ?h1 = "h @ [CallGetDeployHashes]"
  let ?ue = "CallUpdateEnv layout (dj_sha d)"
  let ?h2 = "?h1 @ [?ue]"
  have cond: "(\<not> dj_manual d \<and> dj_sha d = lookupString deployHashes (dj_component d)) = False"
    using diff by blast
  have ue: "updateEnv w d (dj_sha d) ?h1 = (d_UpdateEnv w ?h1 layout (dj_sha d), ?h2)"
    using lay by (simp add: updateEnv_def)
  obtain m where m: "ParamsMap (dj_state d) = Some m"
    using Params_entry_not_nil[of "dj_state d" JobParam_Layout] assertLayout_True[OF lay]
    by (cases "ParamsMap (dj_state d)") auto
  have pm: "Params (dj_state d) = m" using m by (simp add: Params_def)
  show "\<exists>state' pre. deployJob_AdvanceJob w d h
                 = (Ret (state', db_AdvanceJob w (h @ pre @ [CallNotifyJob state']) state'),
                    h @ pre @ [CallNotifyJob state', CallAdvanceJob state'])
              \<and> filter isUpdateEnv pre = [CallUpdateEnv layout (dj_sha d)]
              \<and> (d_UpdateEnv w (h @ [CallGetDeployHashes]) layout (dj_sha d) = None \<longrightarrow>
                   Stage state' = JobStage_Started
                 \<and> Params state' JobParam_Start
                     = Some (VInt (UnixMilli (time_Now w
                         (h @ [CallGetDeployHashes, CallUpdateEnv layout (dj_sha d)]))))
                 \<and> state' = (dj_state d)\<lparr>Stage := JobStage_Started,
                      ParamsMap := Some ((Params (dj_state d))(JobParam_Start \<mapsto>
                        VInt (UnixMilli (time_Now w
                          (h @ [CallGetDeployHashes, CallUpdateEnv layout (dj_sha d)])))))\<rparr>
                 \<and> CallUpdateBuildHash (dj_component d) (dj_sha d) \<in> set pre)
              \<and> (\<forall>err. d_UpdateEnv w (h @ [CallGetDeployHashes]) layout (dj_sha d) = Some err
                   \<longrightarrow> Stage state' = JobStage_Failed
                     \<and> Params state' = (Params (dj_state d))(JobParam_Error \<mapsto> VString err))"
  proof (cases "d_UpdateEnv w ?h1 layout (dj_sha d)")
    case (Some err)
    let ?l = "''deployJob: error updating service''"
    from failJob_not_nil[OF m, of w err ?l ?h2]
    obtain state' where f: "failJob w (dj_state d) err ?l ?h2 =
        (Ret (state', db_AdvanceJob w (?h2 @ [CallLog ?l, CallNotifyJob state']) state'),
         ?h2 @ [CallLog ?l, CallNotifyJob state', CallAdvanceJob state'])"
      "Stage state' = JobStage_Failed"
      "Params state' = m(JobParam_Error \<mapsto> VString err)"
      by (elim exE conjE) (rule that)
    let ?pre = "[CallGetDeployHashes, ?ue, CallLog ?l]"
    have adv: "deployJob_AdvanceJob w d h
        = (Ret (state', db_AdvanceJob w (h @ ?pre @ [CallNotifyJob state']) state'),
           h @ ?pre @ [CallNotifyJob state', CallAdvanceJob state'])"
      using q hashes ue Some f(1) by (simp add: deployJob_AdvanceJob_def Let_def cond)
    show ?thesis
      apply (intro exI[of _ state'] exI[of _ ?pre] conjI)
      subgoal using adv by simp
      subgoal by simp
      subgoal using Some by simp
      subgoal using Some f(2,3) pm by simp
      done
  next
    case None
    let ?st = "(dj_state d)\<lparr>Stage := JobStage_Started,
        ParamsMap := Some ((Params (dj_state d))(JobParam_Start \<mapsto>
           VInt (UnixMilli (time_Now w ?h2))))\<rparr>"
    let ?u = "CallUpdateBuildHash (dj_component d) (dj_sha d)"
    let ?l = "CallLog ''deployJob: failed to update build hash''"
    let ?mid = "case db_UpdateBuildHash w (?h2 @ [CallNow]) (dj_component d) (dj_sha d) of
                  Some err \<Rightarrow> [CallNow, ?u, ?l] | None \<Rightarrow> [CallNow, ?u]"
    let ?pre = "[CallGetDeployHashes, ?ue] @ ?mid"
    have sp: "setParam ((dj_state d)\<lparr>Stage := JobStage_Started\<rparr>) JobParam_Start
                (VInt (UnixMilli (time_Now w ?h2))) = Ret ?st"
      using m by (simp add: setParam_def pm)
    have n: "notifyAndStore w ?st (?h2 @ ?mid)
        = (Ret (?st, db_AdvanceJob w ((?h2 @ ?mid) @ [CallNotifyJob ?st]) ?st),
           (?h2 @ ?mid) @ [CallNotifyJob ?st, CallAdvanceJob ?st])"
      by (simp add: notifyAndStore_notified)
    have adv: "deployJob_AdvanceJob w d h
        = (Ret (?st, db_AdvanceJob w (h @ ?pre @ [CallNotifyJob ?st]) ?st),
           h @ ?pre @ [CallNotifyJob ?st, CallAdvanceJob ?st])"
      using q hashes ue None n sp
      by (simp add: deployJob_AdvanceJob_def Let_def cond split: option.splits)
    have mid: "filter isUpdateEnv ?mid = []" "?u \<in> set ?mid"
      by (simp_all split: option.splits)
    show ?thesis
      apply (intro exI[of _ ?st] exI[of _ ?pre] conjI)
      subgoal using adv by simp
      subgoal using mid(1) by simp
      subgoal using mid(2) by (simp add: Params_def)
      subgoal using None by simp
      done
  qed
qed

theorem deployJob_AdvanceJob_queued_witness:
  "(\<exists>pre. deployJob_AdvanceJob (jobsWorld True) sameShaDeploy []
        = (Ret ((dj_state sameShaDeploy)\<lparr>Stage := JobStage_Skipped\<rparr>, None),
           [] @ pre @ [CallNotifyJob ((dj_state sameShaDeploy)\<lparr>Stage := JobStage_Skipped\<rparr>),
                       CallAdvanceJob ((dj_state sameShaDeploy)\<lparr>Stage := JobStage_Skipped\<rparr>)])
        \<and> filter isUpdateEnv pre = [])
   \<and> (\<exists>state' pre. deployJob_AdvanceJob (jobsWorld True) newShaDeploy []
        = (Ret (state', None),
           [] @ pre @ [CallNotifyJob state', CallAdvanceJob state'])
        \<and> filter isUpdateEnv pre = [CallUpdateEnv ceramicDevLayout ''def'']
        \<and> Stage state' = JobStage_Started
        \<and> Params state' JobParam_Start = Some (VInt 1000000)
        \<and> CallUpdateBuildHash ''ceramic'' ''def'' \<in> set pre)"
proof -
  have q1: "Stage (dj_state sameShaDeploy) = JobStage_Queued"
    and q2: "Stage (dj_state newShaDeploy) = JobStage_Queued"
    by (simp_all add: jobs_defs)
  have hs: "db_GetDeployHashes (jobsWorld True) [] = Inr [''ceramic'' \<mapsto> ''abc'']"
    by (simp add: jobs_defs)
  have same: "\<not> dj_manual sameShaDeploy
      \<and> dj_sha sameShaDeploy = lookupString [''ceramic'' \<mapsto> ''abc''] (dj_component sameShaDeploy)"
    by (simp add: jobs_defs)
  have diff: "\<not> (\<not> dj_manual newShaDeploy
      \<and> dj_sha newShaDeploy = lookupString [''ceramic'' \<mapsto> ''abc''] (dj_component newShaDeploy))"
    by (simp add: jobs_defs)
  have lay: "assertLayout (Params (dj_state newShaDeploy) JobParam_Layout) = (ceramicDevLayout, True)"
    by (simp add: jobs_defs)
  have ok: "d_UpdateEnv (jobsWorld True) ([] @ [CallGetDeployHashes]) ceramicDevLayout
              (dj_sha newShaDeploy) = None"
    by (simp add: jobs_defs)
  have store: "\<And>h js. db_AdvanceJob (jobsWorld True) h js = None"
    by (simp add: jobs_defs)
  have vals: "dj_sha newShaDeploy = ''def''" "dj_component newShaDeploy = ''ceramic''"
    "\<And>h. UnixMilli (time_Now (jobsWorld True) h) = 1000000"
    by (simp_all add: jobs_defs UnixMilli_def Second_def)
  have g1: "\<exists>pre. deployJob_AdvanceJob (jobsWorld True) sameShaDeploy []
        = (Ret ((dj_state sameShaDeploy)\<lparr>Stage := JobStage_Skipped\<rparr>, None),
           [] @ pre @ [CallNotifyJob ((dj_state sameShaDeploy)\<lparr>Stage := JobStage_Skipped\<rparr>),
                       CallAdvanceJob ((dj_state sameShaDeploy)\<lparr>Stage := JobStage_Skipped\<rparr>)])
        \<and> filter isUpdateEnv pre = []"
    using deployJob_AdvanceJob_queued [OF q1 hs, THEN conjunct1, rule_format, OF same]
    unfolding store by blast
  have g2: "\<exists>state' pre. deployJob_AdvanceJob (jobsWorld True) newShaDeploy []
        = (Ret (state', None),
           [] @ pre @ [CallNotifyJob state', CallAdvanceJob state'])
        \<and> filter isUpdateEnv pre = [CallUpdateEnv ceramicDevLayout ''def'']
        \<and> Stage state' = JobStage_Started
        \<and> Params state' JobParam_Start = Some (VInt 1000000)
        \<and> CallUpdateBuildHash ''ceramic'' ''def'' \<in> set pre"
    using deployJob_AdvanceJob_queued [OF q2 hs, THEN conjunct2, rule_format, OF diff lay]
    apply (elim exE conjE)
    subgoal premises p for state' pre
      apply (intro exI[of _ state'] exI[of _ pre])
      using p(1,2) p(3) [rule_format, OF ok]
      unfolding store vals by simp
    done
  show ?thesis using g1 g2 by blast
qed

section \<open>Theorems: the E2E test job\<close>

text \<open>
  C5, as the code has it. An E2E test job in a stage other than Queued whose \<open>ts\<close> is
  more than two hours before the clock: one advancement hands the database the job with
  stage Failed and \<open>ts\<close> set to the clock, every parameter as it was. The result is
  the result of that write. No \<open>error\<close> entry is added.
\<close>

theorem e2eTestJob_AdvanceJob_timeout:
  assumes "Stage state \<noteq> JobStage_Queued"
    and "Ts state < time_Now w h - FailureTime"
  shows "e2eTestJob_AdvanceJob w state h =
     Ret (db_UpdateJob w (h @ [CallNow, CallNow])
            (state\<lparr>Stage := JobStage_Failed, Ts := time_Now w (h @ [CallNow])\<rparr>),
          h @ [CallNow, CallNow,
               CallUpdateJob (state\<lparr>Stage := JobStage_Failed,
                                    Ts := time_Now w (h @ [CallNow])\<rparr>)])
     \<and> Params (state\<lparr>Stage := JobStage_Failed, Ts := time_Now w (h @ [CallNow])\<rparr>)
         = Params state"
  using assms
  by (simp add: e2eTestJob_AdvanceJob_def stampAndStore_def After_def Add_def Let_def)

lemmas e2e_defs = e2eWaiting_def lateWorld_def jobsWorld_def mkJob_def FailureTime_def
  Hour_def Minute_def Second_def

theorem e2eTestJob_AdvanceJob_timeout_witness:
  "e2eTestJob_AdvanceJob lateWorld e2eWaiting [] =
     Ret (None,
          [CallNow, CallNow,
           CallUpdateJob (e2eWaiting\<lparr>Stage := JobStage_Failed, Ts := 2 * Hour + Second\<rparr>)])"
proof -
  have a: "Stage e2eWaiting \<noteq> JobStage_Queued"
    and b: "Ts e2eWaiting < time_Now lateWorld [] - FailureTime"
    by (simp_all add: e2e_defs)
  show ?thesis
    using e2eTestJob_AdvanceJob_timeout [OF a b] by (simp add: lateWorld_def jobsWorld_def)
qed

text \<open>
  That \<open>error = "timeout"\<close> is recorded in the parameters is false for the job in
  Waiting with \<open>ts = now - 2h - 1s\<close>: the state written to the database is Failed
  and has no \<open>error\<close> entry.
\<close>

theorem e2eTestJob_AdvanceJob_timeout_counterexample:
  "e2eTestJob_AdvanceJob lateWorld e2eWaiting [] =
     Ret (None,
          [CallNow, CallNow,
           CallUpdateJob (e2eWaiting\<lparr>Stage := JobStage_Failed, Ts := 2 * Hour + Second\<rparr>)])
   \<and> Params (e2eWaiting\<lparr>Stage := JobStage_Failed, Ts := 2 * Hour + Second\<rparr>) JobParam_Error
       \<noteq> Some (VString Error_Timeout)"
  by (simp add: e2eTestJob_AdvanceJob_def stampAndStore_def After_def Add_def Let_def e2e_defs
      E2eTest_PrivatePublic_def E2eTest_LocalClientPublic_def E2eTest_LocalNodePrivate_def
      JobParam_Error_def)

end
